theory Spec2Isabelle
  imports Complex_Main
begin

section \<open>JavaScript values used by the batch engine\<close>

text \<open>
  The development embeds \<^verbatim>\<open>src/domain/services/batch_processing.service.js\<close>
  (class \<^verbatim>\<open>BatchProcessingService\<close> and the two versions of
  \<^verbatim>\<open>DocumentAIService.getProcessingStats\<close> stored in the same file) and
  \<^verbatim>\<open>src/domain/entities/documents.js\<close> (class \<^verbatim>\<open>Document\<close>).

  JavaScript numbers are modelled by \<open>int\<close> where the code only counts or compares
  configured integers, and by \<open>real\<close> where it divides or adds a random jitter
  (ideal arithmetic, without the rounding of doubles). A division whose result may be
  \<^verbatim>\<open>NaN\<close> or infinite returns a \<open>jsnum\<close>.
\<close>

datatype jsnum = Num real | Infinity | NegInfinity | NaN

definition js_div :: "real \<Rightarrow> real \<Rightarrow> jsnum" where
  "js_div a b =
     (if b \<noteq> 0 then Num (a / b)
      else if a = 0 then NaN
      else if 0 < a then Infinity else NegInfinity)"

definition js_times :: "jsnum \<Rightarrow> real \<Rightarrow> jsnum" where
  \<comment> \<open>\<^verbatim>\<open>x * c\<close> for a positive finite constant \<open>c\<close>\<close>
  "js_times x c = (case x of Num r \<Rightarrow> Num (r * c) | other \<Rightarrow> other)"

definition js_ceil :: "jsnum \<Rightarrow> jsnum" where
  "js_ceil x = (case x of Num r \<Rightarrow> Num (of_int \<lceil>r\<rceil>) | other \<Rightarrow> other)"

definition js_pow2 :: "int \<Rightarrow> real" where
  \<comment> \<open>\<^verbatim>\<open>Math.pow(2, k)\<close> for an integer \<open>k\<close>\<close>
  "js_pow2 k = (if 0 \<le> k then 2 ^ nat k else 1 / 2 ^ nat (- k))"

text \<open>\<^verbatim>\<open>s.startsWith(p)\<close> and \<^verbatim>\<open>s.includes(p)\<close> on strings.\<close>

fun startsWith :: "string \<Rightarrow> string \<Rightarrow> bool" where
  "startsWith s [] = True"
| "startsWith [] (p # ps) = False"
| "startsWith (c # cs) (p # ps) = (c = p \<and> startsWith cs ps)"

fun str_includes :: "string \<Rightarrow> string \<Rightarrow> bool" where
  "str_includes [] p = (p = [])"
| "str_includes (c # cs) p = (startsWith (c # cs) p \<or> str_includes cs p)"

text \<open>\<^verbatim>\<open>parts.join(sep)\<close>.\<close>

fun join :: "string list \<Rightarrow> string \<Rightarrow> string" where
  "join [] sep = []"
| "join [x] sep = x"
| "join (x # y # ys) sep = x @ sep @ join (y # ys) sep"

text \<open>The decimal rendering of an integer inside a template string.\<close>

fun nat_str :: "nat \<Rightarrow> string" where
  "nat_str n =
     (if n < 10 then [''0123456789'' ! n]
      else nat_str (n div 10) @ [''0123456789'' ! (n mod 10)])"

declare nat_str.simps [simp del]

definition num_str :: "int \<Rightarrow> string" where
  "num_str k = (if k < 0 then CHR ''-'' # nat_str (nat (- k)) else nat_str (nat k))"

text \<open>
  \<^verbatim>\<open>parseInt(process.env.X) || d\<close>: the environment variable is read as an
  integer, \<open>None\<close> standing for \<^verbatim>\<open>NaN\<close> (variable unset or not a number); \<^verbatim>\<open>NaN\<close>
  and \<open>0\<close> are falsy and give the default.
\<close>

definition int_or :: "int option \<Rightarrow> int \<Rightarrow> int" where
  "int_or v d = (case v of None \<Rightarrow> d | Some n \<Rightarrow> if n = 0 then d else n)"

definition str_or :: "string option \<Rightarrow> string \<Rightarrow> string" where
  "str_or v d = (case v of None \<Rightarrow> d | Some s \<Rightarrow> if s = [] then d else s)"

record environment =
  BATCH_SIZE :: "int option"
  MAX_WORKERS :: "int option"
  MAX_RETRIES :: "int option"
  MAX_RETRY_WAIT_TIME :: "int option"
  RETRY_LOGGING_STYLE :: "string option"

section \<open>Documents\<close>

datatype processing_status = Pending | Processing | Completed | Failed

text \<open>
  \<^verbatim>\<open>FilePath\<close> reads the file system and parses URLs. A value of \<open>file_path\<close> holds
  what those reads return for one path: whether the string is a URL, the extension
  \<^verbatim>\<open>getExtension()\<close> computes, the message \<^verbatim>\<open>validateUrl\<close> throws (if any), and the
  results of \<^verbatim>\<open>fs.existsSync\<close>, \<^verbatim>\<open>fs.accessSync\<close> and \<^verbatim>\<open>fs.statSync\<close>.
\<close>

record file_path =
  fp_value :: string
  fp_isUrl :: bool
  fp_extension :: string
  fp_urlError :: "string option"
  fs_existsSync :: bool
  fs_readable :: bool
  fs_statSize :: "int option"

definition isLocalPath :: "file_path \<Rightarrow> bool" where
  "isLocalPath p = (\<not> fp_isUrl p)"

definition exists :: "file_path \<Rightarrow> bool" where
  "exists p = (if fp_isUrl p then True else fs_existsSync p)"

definition isReadable :: "file_path \<Rightarrow> bool" where
  "isReadable p = (if fp_isUrl p then True else fs_readable p)"

definition isWithinSizeLimit :: "file_path \<Rightarrow> bool" where
  "isWithinSizeLimit p =
     (if fp_isUrl p then True
      else (case fs_statSize p of None \<Rightarrow> False | Some sz \<Rightarrow> sz \<le> 50 * 1024 * 1024))"

definition supportedExtensions :: "string list" where
  "supportedExtensions =
     [''.pdf'',
      ''.jpg'', ''.jpeg'', ''.png'', ''.tiff'', ''.tif'', ''.bmp'', ''.gif'', ''.webp'',
      ''.ppm'', ''.pgm'', ''.pbm'', ''.sr'', ''.ras'', ''.jp2'', ''.j2k'', ''.jpx'',
      ''.jpf'', ''.jpm'', ''.mj2'', ''.tga'', ''.exr'', ''.hdr'', ''.pic'']"

definition isSupportedType :: "file_path \<Rightarrow> bool" where
  "isSupportedType p = (fp_extension p \<in> set supportedExtensions)"

definition validateForProcessing :: "file_path \<Rightarrow> string list" where
  \<comment> \<open>the \<^verbatim>\<open>errors\<close> array; \<^verbatim>\<open>isValid\<close> is \<^verbatim>\<open>errors.length === 0\<close>\<close>
  "validateForProcessing p =
     (if fp_isUrl p
      then (case fp_urlError p of None \<Rightarrow> [] | Some m \<Rightarrow> [m])
      else (if \<not> exists p then [''File does not exist''] else [])
         @ (if \<not> isReadable p then [''File is not readable''] else [])
         @ (if \<not> isWithinSizeLimit p
            then [''File size exceeds maximum allowed limit''] else []))
     @ (if \<not> isSupportedType p
        then [''Unsupported file type: '' @ fp_extension p] else [])"

record document =
  doc_id :: string
  filePath :: file_path
  mimeType :: string
  doc_size :: "int option"
  doc_batchSize :: int
  doc_maxWorkers :: int
  doc_maxRetries :: int
  doc_maxRetryWaitTime :: int
  doc_retryLoggingStyle :: string
  processingAttempts :: nat
  lastProcessingAttempt :: "int option"
  processingStatus :: processing_status

text \<open>
  The result of \<^verbatim>\<open>canBeProcessed()\<close> and of \<^verbatim>\<open>canAddToBatch()\<close>: the flag
  (\<^verbatim>\<open>canProcess\<close>, \<^verbatim>\<open>canAdd\<close>), the reason and the code.
\<close>

record decision =
  ok :: bool
  reason :: string
  code :: string

definition supportedTypes :: "string list" where
  "supportedTypes =
     [''application/pdf'',
      ''image/jpeg'', ''image/png'', ''image/tiff'', ''image/bmp'', ''image/gif'',
      ''image/webp'',
      ''image/x-portable-pixmap'', ''image/x-portable-graymap'',
      ''image/x-portable-bitmap'', ''image/x-sun-raster'', ''image/x-cmu-raster'',
      ''image/jp2'', ''image/jpm'', ''image/mj2'', ''image/x-tga'', ''image/x-exr'',
      ''image/vnd.radiance'', ''image/x-pict'']"

definition truthy_size :: "int option \<Rightarrow> bool" where
  \<comment> \<open>\<^verbatim>\<open>this.size\<close> as a condition: \<^verbatim>\<open>undefined\<close> and \<open>0\<close> are falsy\<close>
  "truthy_size sz = (case sz of None \<Rightarrow> False | Some n \<Rightarrow> n \<noteq> 0)"

definition canBeProcessed :: "document \<Rightarrow> int \<Rightarrow> decision" where
  \<comment> \<open>the second argument is \<^verbatim>\<open>Date.now()\<close>, in milliseconds\<close>
  "canBeProcessed d now =
     (let maxFileSize = 50 * 1024 * 1024 in
      if isLocalPath (filePath d) \<and> \<not> exists (filePath d) then
        \<lparr>ok = False, reason = ''File does not exist or is not accessible'',
         code = ''FILE_NOT_FOUND''\<rparr>
      else if isLocalPath (filePath d) \<and> truthy_size (doc_size d)
              \<and> the (doc_size d) > maxFileSize then
        \<lparr>ok = False,
         reason = ''File size '' @ num_str (the (doc_size d))
                  @ '' bytes exceeds maximum allowed size of '' @ num_str maxFileSize
                  @ '' bytes'',
         code = ''FILE_TOO_LARGE''\<rparr>
      else if mimeType d \<notin> set supportedTypes then
        \<lparr>ok = False, reason = ''Unsupported file type: '' @ mimeType d,
         code = ''UNSUPPORTED_FILE_TYPE''\<rparr>
      else if processingStatus d = Processing then
        \<lparr>ok = False, reason = ''Document is currently being processed'',
         code = ''ALREADY_PROCESSING''\<rparr>
      else if processingStatus d = Completed then
        \<lparr>ok = False, reason = ''Document has already been processed successfully'',
         code = ''ALREADY_COMPLETED''\<rparr>
      else if int (processingAttempts d) \<ge> doc_maxRetries d then
        \<lparr>ok = False,
         reason = ''Maximum retry attempts ('' @ num_str (doc_maxRetries d)
                  @ '') exceeded'',
         code = ''MAX_RETRIES_EXCEEDED''\<rparr>
      else if lastProcessingAttempt d \<noteq> None
              \<and> now - the (lastProcessingAttempt d) < doc_maxRetryWaitTime d * 1000 then
        \<lparr>ok = False,
         reason = ''Rate limit: must wait ''
                  @ num_str \<lceil>(of_int (doc_maxRetryWaitTime d * 1000
                                      - (now - the (lastProcessingAttempt d))) :: real)
                              / 1000\<rceil>
                  @ '' more seconds before retry'',
         code = ''RATE_LIMITED''\<rparr>
      else if doc_batchSize d \<le> 0 then
        \<lparr>ok = False, reason = ''Batch size must be greater than 0'',
         code = ''INVALID_BATCH_SIZE''\<rparr>
      else if doc_maxWorkers d \<le> 0 then
        \<lparr>ok = False, reason = ''Maximum workers must be greater than 0'',
         code = ''INVALID_MAX_WORKERS''\<rparr>
      else
        \<lparr>ok = True, reason = ''Document can be processed'',
         code = ''READY_TO_PROCESS''\<rparr>)"

definition markAsProcessing :: "document \<Rightarrow> int \<Rightarrow> document" where
  \<comment> \<open>the second argument is the time \<^verbatim>\<open>new Date()\<close> reads\<close>
  "markAsProcessing d now =
     d\<lparr>processingStatus := Processing,
       processingAttempts := processingAttempts d + 1,
       lastProcessingAttempt := Some now\<rparr>"

definition markAsCompleted :: "document \<Rightarrow> document" where
  "markAsCompleted d = d\<lparr>processingStatus := Completed\<rparr>"

definition markAsFailed :: "document \<Rightarrow> document" where
  "markAsFailed d = d\<lparr>processingStatus := Failed\<rparr>"

definition resetProcessingState :: "document \<Rightarrow> document" where
  "resetProcessingState d =
     d\<lparr>processingStatus := Pending, processingAttempts := 0,
       lastProcessingAttempt := None\<rparr>"

definition validate :: "document \<Rightarrow> string list" where
  \<comment> \<open>the \<^verbatim>\<open>errors\<close> array; \<^verbatim>\<open>isValid\<close> is \<^verbatim>\<open>errors.length === 0\<close>.
     \<^verbatim>\<open>this.filePath\<close> is an object, so the check \<^verbatim>\<open>!this.filePath\<close> never fires.\<close>
  "validate d =
       (if doc_id d = [] then [''Document ID is required''] else [])
     @ (if mimeType d = [] then [''MIME type is required''] else [])
     @ (if truthy_size (doc_size d) \<and> the (doc_size d) < 0
        then [''File size cannot be negative''] else [])
     @ (if doc_batchSize d \<le> 0 then [''Batch size must be greater than 0''] else [])
     @ (if doc_maxWorkers d \<le> 0
        then [''Maximum workers must be greater than 0''] else [])
     @ (if doc_maxRetries d < 0 then [''Maximum retries cannot be negative''] else [])
     @ (if doc_maxRetryWaitTime d < 0
        then [''Maximum retry wait time cannot be negative''] else [])
     @ validateForProcessing (filePath d)"

section \<open>The batch processing service\<close>

text \<open>
  Documents are mutable objects, and the queue and the two result lists of the service
  hold references to them: the object a caller passes to \<^verbatim>\<open>addToBatch\<close> is the object
  \<^verbatim>\<open>processBatch\<close> later marks and pushes onto a result list. A reference is a \<open>ref\<close>,
  and a \<open>heap\<close> gives the current state of the object behind each reference. A method
  that assigns to a field of a document returns the updated heap.
\<close>

type_synonym ref = nat

type_synonym heap = "ref \<Rightarrow> document"

record service =
  batchSize :: int
  maxWorkers :: int
  maxRetries :: int
  maxRetryWaitTime :: int
  retryLoggingStyle :: string
  activeWorkers :: nat
  processingQueue :: "ref list"
  completedDocuments :: "ref list"
  failedDocuments :: "ref list"

definition constructor :: "environment \<Rightarrow> service" where
  "constructor env =
     \<lparr>batchSize = int_or (BATCH_SIZE env) 4,
      maxWorkers = int_or (MAX_WORKERS env) 2,
      maxRetries = int_or (MAX_RETRIES env) 80,
      maxRetryWaitTime = int_or (MAX_RETRY_WAIT_TIME env) 30,
      retryLoggingStyle = str_or (RETRY_LOGGING_STYLE env) ''log_msg'',
      activeWorkers = 0,
      processingQueue = [],
      completedDocuments = [],
      failedDocuments = []\<rparr>"

definition calculateRetryWaitTime :: "service \<Rightarrow> int \<Rightarrow> real \<Rightarrow> real" where
  \<comment> \<open>the third argument is the value \<^verbatim>\<open>Math.random()\<close> returns\<close>
  "calculateRetryWaitTime s attempt rnd =
     (let baseWaitTime = min (maxRetryWaitTime s) 30;
          exponentialWait = js_pow2 (attempt - 1) * 1000;
          jitter = rnd * 1000
      in min (exponentialWait + jitter) (of_int baseWaitTime * 1000))"

definition calculateEstimatedWaitTime :: "service \<Rightarrow> jsnum" where
  "calculateEstimatedWaitTime s =
     (let documentsInQueue = length (processingQueue s);
          estimatedTimePerDocument = 5;
          workers = maxWorkers s
      in js_ceil (js_div (real documentsInQueue * estimatedTimePerDocument)
                         (of_int workers)))"

definition canAddToBatch :: "service \<Rightarrow> heap \<Rightarrow> ref \<Rightarrow> int \<Rightarrow> decision" where
  \<comment> \<open>the last argument is \<^verbatim>\<open>Date.now()\<close>; the \<^verbatim>\<open>batchInfo\<close> of the accepting
     decision is not modelled\<close>
  "canAddToBatch s h document now =
     (let validation = validate (h document) in
      if validation \<noteq> [] then
        \<lparr>ok = False,
         reason = ''Document validation failed: '' @ join validation '', '',
         code = ''VALIDATION_FAILED''\<rparr>
      else
        let processingCheck = canBeProcessed (h document) now in
        if \<not> ok processingCheck then
          \<lparr>ok = False, reason = reason processingCheck, code = code processingCheck\<rparr>
        else if int (length (processingQueue s)) \<ge> batchSize s then
          \<lparr>ok = False,
           reason = ''Batch is full ('' @ num_str (batchSize s) @ '' documents)'',
           code = ''BATCH_FULL''\<rparr>
        else if list_ex (\<lambda>doc. doc_id (h doc) = doc_id (h document))
                        (processingQueue s) then
          \<lparr>ok = False, reason = ''Document is already in processing queue'',
           code = ''ALREADY_IN_QUEUE''\<rparr>
        else
          \<lparr>ok = True, reason = ''Document can be added to batch'',
           code = ''READY_TO_ADD''\<rparr>)"

record add_result =
  add_success :: bool
  add_documentId :: string
  queuePosition :: nat
  estimatedWaitTime :: jsnum

text \<open>
  \<^verbatim>\<open>addToBatch\<close> throws \<^verbatim>\<open>new Error(message)\<close> or returns; the model returns
  \<open>Inl message\<close> for the throw and \<open>Inr\<close> of the result and the updated service otherwise.
  It assigns to no field of a document, so the heap is an argument only.
\<close>

definition addToBatch ::
  "service \<Rightarrow> heap \<Rightarrow> ref \<Rightarrow> int \<Rightarrow> string + add_result \<times> service" where
  "addToBatch s h document now =
     (let canAdd = canAddToBatch s h document now in
      if \<not> ok canAdd then Inl (''Cannot add document to batch: '' @ reason canAdd)
      else
        let s' = s\<lparr>processingQueue := processingQueue s @ [document]\<rparr> in
        Inr (\<lparr>add_success = True,
              add_documentId = doc_id (h document),
              queuePosition = length (processingQueue s'),
              estimatedWaitTime = calculateEstimatedWaitTime s'\<rparr>, s'))"



subsection \<open>Splitting a batch into chunks\<close>

text \<open>\<^verbatim>\<open>array.slice(a, b)\<close>: a negative index counts from the end.\<close>

definition slice_index :: "int \<Rightarrow> int \<Rightarrow> int" where
  "slice_index len k = (if k < 0 then max (len + k) 0 else min k len)"

definition slice :: "'a list \<Rightarrow> int \<Rightarrow> int \<Rightarrow> 'a list" where
  "slice xs a b =
     (let len = int (length xs); from = slice_index len a; to = slice_index len b
      in take (nat (to - from)) (drop (nat from) xs))"

text \<open>
  The loop of \<^verbatim>\<open>chunkArray\<close> advances \<open>i\<close> by \<open>chunkSize\<close> and stops when
  \<open>i \<ge> array.length\<close>: with \<open>chunkSize \<le> 0\<close> and a non-empty array it never stops.
  The value \<open>None\<close> stands for a call that does not return.
\<close>

partial_function (option) chunkArray_loop ::
  "'a list \<Rightarrow> int \<Rightarrow> int \<Rightarrow> 'a list list \<Rightarrow> 'a list list option" where
  "chunkArray_loop array chunkSize i chunks =
     (if i < int (length array)
      then chunkArray_loop array chunkSize (i + chunkSize)
             (chunks @ [slice array i (i + chunkSize)])
      else Some chunks)"

definition chunkArray :: "'a list \<Rightarrow> int \<Rightarrow> 'a list list option" where
  "chunkArray array chunkSize = chunkArray_loop array chunkSize 0 []"

subsection \<open>Retrying one document\<close>

text \<open>
  What the extraction function throws: \<open>Error m\<close> is a value whose \<^verbatim>\<open>message\<close> is the
  string \<open>m\<close>; \<open>NonError t\<close> is a value without a string \<^verbatim>\<open>message\<close>
  (\<^verbatim>\<open>null\<close>, a bare string, ...), for which reading \<^verbatim>\<open>error.message\<close> or calling
  \<^verbatim>\<open>error.message.includes\<close> in the \<^verbatim>\<open>catch\<close> block raises a \<^verbatim>\<open>TypeError\<close> with
  message \<open>t\<close>.
\<close>

datatype thrown = Error string | NonError string

text \<open>
  The object \<^verbatim>\<open>processDocument\<close> returns. A key the object does not have is \<open>None\<close>.
\<close>

record 'r outcome =
  success :: bool
  result :: "'r option"
  error :: "string option"
  attempts :: "int option"

definition shouldRetry :: "service \<Rightarrow> string \<Rightarrow> nat \<Rightarrow> bool" where
  \<comment> \<open>the second argument is \<^verbatim>\<open>error.message\<close>\<close>
  "shouldRetry s message attempt =
     (if str_includes message ''VALIDATION_FAILED''
         \<or> str_includes message ''UNSUPPORTED_FILE_TYPE''
         \<or> str_includes message ''FILE_TOO_LARGE'' then False
      else if str_includes message ''Invalid API key''
              \<or> str_includes message ''401'' then False
      else int attempt < maxRetries s)"

text \<open>
  The world \<open>'w\<close> is everything outside the service: the remote endpoint, the clock and
  the random generator. The extraction function is a parameter
  \<open>document \<Rightarrow> 'w \<Rightarrow> (thrown + 'r) \<times> 'w\<close>; the ambient functions \<^verbatim>\<open>Math.random\<close>,
  \<^verbatim>\<open>sleep\<close> and \<^verbatim>\<open>Date.now\<close> are the fields of \<open>ambient\<close>. Console logging is left out.
  The extraction function is given the current state of the document and assigns to no
  field of it, as the extraction functions of the repository do (they read
  \<^verbatim>\<open>document.filePath.value\<close>).
\<close>

record 'w ambient =
  mathRandom :: "'w \<Rightarrow> real \<times> 'w"
  sleep :: "real \<Rightarrow> 'w \<Rightarrow> 'w"
  dateNow :: "'w \<Rightarrow> int"

text \<open>
  The run of \<^verbatim>\<open>processDocument\<close> is recorded next to its result: \<open>Extract n\<close> is the
  call of the extraction function in attempt \<open>n\<close>, \<open>Sleep ms\<close> a backoff sleep.
\<close>

datatype event = Extract nat | Sleep real

definition invocations :: "event list \<Rightarrow> nat" where
  "invocations tr = length (filter (\<lambda>e. case e of Extract n \<Rightarrow> True | Sleep ms \<Rightarrow> False) tr)"

definition failureResult :: "service \<Rightarrow> string option \<Rightarrow> 'r outcome" where
  \<comment> \<open>the \<^verbatim>\<open>return\<close> after the loop; the argument is the message of \<^verbatim>\<open>lastError\<close>\<close>
  "failureResult s lastError =
     \<lparr>success = False,
      result = None,
      error = Some (case lastError of
                      None \<Rightarrow> ''Max retries exceeded''
                    | Some m \<Rightarrow> if m = [] then ''Max retries exceeded'' else m),
      attempts = Some (maxRetries s)\<rparr>"

function processDocument_loop ::
  "service \<Rightarrow> 'w ambient \<Rightarrow> (document \<Rightarrow> 'w \<Rightarrow> (thrown + 'r) \<times> 'w) \<Rightarrow> document
     \<Rightarrow> nat \<Rightarrow> string option \<Rightarrow> 'w \<Rightarrow> (string + 'r outcome) \<times> event list \<times> 'w" where
  "processDocument_loop s amb extractionFunction document attempt lastError w =
     (if int attempt \<le> maxRetries s then
        (case extractionFunction document w of
           (Inr res, w1) \<Rightarrow>
             (Inr \<lparr>success = True, result = Some res, error = None, attempts = None\<rparr>,
              [Extract attempt], w1)
         | (Inl (NonError t), w1) \<Rightarrow> (Inl t, [Extract attempt], w1)
         | (Inl (Error m), w1) \<Rightarrow>
             if \<not> shouldRetry s m attempt then
               (Inr (failureResult s (Some m)), [Extract attempt], w1)
             else if int attempt < maxRetries s then
               (case mathRandom amb w1 of (rnd, w2) \<Rightarrow>
                  let waitTime = calculateRetryWaitTime s (int attempt) rnd;
                      w3 = sleep amb waitTime w2
                  in (case processDocument_loop s amb extractionFunction document
                             (attempt + 1) (Some m) w3 of
                        (r, tr, w4) \<Rightarrow> (r, Extract attempt # Sleep waitTime # tr, w4)))
             else
               (case processDocument_loop s amb extractionFunction document
                       (attempt + 1) (Some m) w1 of
                  (r, tr, w4) \<Rightarrow> (r, Extract attempt # tr, w4)))
      else (Inr (failureResult s lastError), [], w))"
  by pat_completeness auto
termination
  by (relation "measure (\<lambda>(s, amb, f, d, attempt, l, w). nat (maxRetries s + 1 - int attempt))")
     auto

declare processDocument_loop.simps [simp del]

definition processDocument ::
  "service \<Rightarrow> 'w ambient \<Rightarrow> (document \<Rightarrow> 'w \<Rightarrow> (thrown + 'r) \<times> 'w) \<Rightarrow> document
     \<Rightarrow> 'w \<Rightarrow> (string + 'r outcome) \<times> event list \<times> 'w" where
  "processDocument s amb extractionFunction document w =
     processDocument_loop s amb extractionFunction document 1 None w"

subsection \<open>Processing a batch\<close>

record batch_error =
  be_documentId :: string
  be_error :: "string option"

record batch_results =
  processed :: nat
  completed :: nat
  failed :: nat
  errors :: "batch_error list option"
  message :: "string option"

text \<open>
  The callback \<^verbatim>\<open>processBatch\<close> maps over a chunk. It marks the object behind the
  reference and pushes the reference itself onto a result list. The documents of a chunk
  run concurrently in the source; the model takes the schedule in which they finish in
  the order of dispatch. Counters and statuses do not depend on the schedule, the order
  of the entries appended within one chunk does.
\<close>

definition processEntry ::
  "'w ambient \<Rightarrow> (document \<Rightarrow> 'w \<Rightarrow> (thrown + 'r) \<times> 'w)
     \<Rightarrow> service \<times> heap \<times> batch_results \<times> 'w \<Rightarrow> ref
     \<Rightarrow> service \<times> heap \<times> batch_results \<times> 'w" where
  "processEntry amb extractionFunction st document =
     (case st of (s, h, results, w) \<Rightarrow>
        let h1 = h(document := markAsProcessing (h document) (dateNow amb w)) in
        (case processDocument s amb extractionFunction (h1 document) w of
           (Inr res, tr, w1) \<Rightarrow>
             if success res then
               (s\<lparr>completedDocuments := completedDocuments s @ [document]\<rparr>,
                h1(document := markAsCompleted (h1 document)),
                results\<lparr>completed := completed results + 1\<rparr>, w1)
             else
               (s\<lparr>failedDocuments := failedDocuments s @ [document]\<rparr>,
                h1(document := markAsFailed (h1 document)),
                results\<lparr>failed := failed results + 1,
                        errors := map_option
                          (\<lambda>es. es @ [\<lparr>be_documentId = doc_id (h1 document),
                                       be_error = error res\<rparr>]) (errors results)\<rparr>, w1)
         | (Inl t, tr, w1) \<Rightarrow>
             (s\<lparr>failedDocuments := failedDocuments s @ [document]\<rparr>,
              h1(document := markAsFailed (h1 document)),
              results\<lparr>failed := failed results + 1,
                      errors := map_option
                        (\<lambda>es. es @ [\<lparr>be_documentId = doc_id (h1 document),
                                     be_error = Some t\<rparr>]) (errors results)\<rparr>, w1)))"

definition processBatch ::
  "service \<Rightarrow> heap \<Rightarrow> 'w ambient \<Rightarrow> (document \<Rightarrow> 'w \<Rightarrow> (thrown + 'r) \<times> 'w) \<Rightarrow> 'w
     \<Rightarrow> (batch_results \<times> service \<times> heap \<times> 'w) option" where
  "processBatch s h amb extractionFunction w =
     (if length (processingQueue s) = 0 then
        Some (\<lparr>processed = 0, completed = 0, failed = 0, errors = None,
               message = Some ''No documents in queue to process''\<rparr>, s, h, w)
      else
        let batchToProcess = take (nat (batchSize s)) (processingQueue s);
            s1 = s\<lparr>processingQueue := drop (nat (batchSize s)) (processingQueue s)\<rparr>;
            results = \<lparr>processed = length batchToProcess, completed = 0, failed = 0,
                       errors = Some [], message = None\<rparr>
        in (case chunkArray batchToProcess (maxWorkers s) of
              None \<Rightarrow> None
            | Some chunks \<Rightarrow>
                (case foldl (\<lambda>st chunk. foldl (processEntry amb extractionFunction) st chunk)
                        (s1, h, results, w) chunks of
                   (s2, h2, results2, w2) \<Rightarrow> Some (results2, s2, h2, w2))))"

section \<open>Statistics of the document service\<close>

text \<open>
  \<^verbatim>\<open>DocumentAIService\<close> keeps two \<^verbatim>\<open>Map\<close>s keyed by document id; a \<^verbatim>\<open>Map\<close> is its list
  of entries, and its \<^verbatim>\<open>size\<close> the length of that list. Of the statistics object, the
  fields derived from the two sizes are modelled. The file holds two versions of
  \<^verbatim>\<open>getProcessingStats\<close>.
\<close>

record ('r, 'e) document_ai_service =
  svc_results :: "(string \<times> 'r) list"
  svc_errors :: "(string \<times> 'e) list"

record processing_stats =
  totalProcessed :: nat
  successful :: nat
  stats_failed :: nat
  successRate :: jsnum

definition getProcessingStats :: "('r, 'e) document_ai_service \<Rightarrow> processing_stats" where
  \<comment> \<open>first version: \<^verbatim>\<open>results.length / (results.length + errors.length) * 100\<close>\<close>
  "getProcessingStats a =
     (let results = map snd (svc_results a); errors = map snd (svc_errors a) in
      \<lparr>totalProcessed = length results + length errors,
       successful = length results,
       stats_failed = length errors,
       successRate =
         js_times (js_div (real (length results))
                          (real (length results + length errors))) 100\<rparr>)"

definition getProcessingStats2 :: "('r, 'e) document_ai_service \<Rightarrow> processing_stats" where
  \<comment> \<open>second version: guarded by \<^verbatim>\<open>totalProcessed > 0\<close>\<close>
  "getProcessingStats2 a =
     (let total = length (svc_results a) + length (svc_errors a);
          successful = length (svc_results a);
          failed = length (svc_errors a);
          successRate = (if total > 0 then js_times (js_div (real successful) (real total)) 100
                         else Num 0)
      in \<lparr>totalProcessed = total, successful = successful, stats_failed = failed,
          successRate = successRate\<rparr>)"

section \<open>Classes of error messages and example inputs\<close>

text \<open>
  The two groups of messages \<^verbatim>\<open>shouldRetry\<close> refuses to retry (validation, file type
  and file size failures; authentication failures), and the messages it lets through.
\<close>

definition authFailureMessage :: "string \<Rightarrow> bool" where
  "authFailureMessage m = (str_includes m ''Invalid API key'' \<or> str_includes m ''401'')"

definition retryableMessage :: "string \<Rightarrow> bool" where
  "retryableMessage m =
     (\<not> str_includes m ''VALIDATION_FAILED''
      \<and> \<not> str_includes m ''UNSUPPORTED_FILE_TYPE''
      \<and> \<not> str_includes m ''FILE_TOO_LARGE''
      \<and> \<not> str_includes m ''Invalid API key''
      \<and> \<not> str_includes m ''401'')"

text \<open>
  The admission check of a document, as \<^verbatim>\<open>canAddToBatch\<close> runs it before it looks at
  the queue: \<^verbatim>\<open>validate()\<close> reports no error and \<^verbatim>\<open>canBeProcessed()\<close> agrees.
\<close>

definition locallyValid :: "document \<Rightarrow> int \<Rightarrow> bool" where
  "locallyValid d now = (validate d = [] \<and> ok (canBeProcessed d now))"

text \<open>Concrete inputs, used to run the definitions.\<close>

definition default_env :: environment where
  "default_env =
     \<lparr>BATCH_SIZE = None, MAX_WORKERS = None, MAX_RETRIES = None,
      MAX_RETRY_WAIT_TIME = None, RETRY_LOGGING_STYLE = None\<rparr>"

definition local_pdf :: file_path where
  "local_pdf =
     \<lparr>fp_value = ''./test.pdf'', fp_isUrl = False, fp_extension = ''.pdf'',
      fp_urlError = None, fs_existsSync = True, fs_readable = True,
      fs_statSize = Some 1024000\<rparr>"

definition example_document :: "string \<Rightarrow> document" where
  \<comment> \<open>\<^verbatim>\<open>new Document(i, './test.pdf', 'application/pdf', 1024000, options)\<close> with
     the options \<^verbatim>\<open>{batchSize: 4, maxWorkers: 2, maxRetries: 80, maxRetryWaitTime: 30}\<close>\<close>
  "example_document i =
     \<lparr>doc_id = i, filePath = local_pdf, mimeType = ''application/pdf'',
      doc_size = Some 1024000, doc_batchSize = 4, doc_maxWorkers = 2,
      doc_maxRetries = 80, doc_maxRetryWaitTime = 30,
      doc_retryLoggingStyle = ''log_msg'', processingAttempts = 0,
      lastProcessingAttempt = None, processingStatus = Pending\<rparr>"

text \<open>
  An example world is the number of extraction calls made so far; the clock of the
  example stands still and the random generator returns one half.
\<close>

definition example_ambient :: "nat ambient" where
  "example_ambient =
     \<lparr>mathRandom = (\<lambda>w. (1 / 2, w)), sleep = (\<lambda>ms w. w), dateNow = (\<lambda>w. 1000000)\<rparr>"

definition always_unauthorized :: "document \<Rightarrow> nat \<Rightarrow> (thrown + string) \<times> nat" where
  "always_unauthorized d w =
     (Inl (Error ''Invalid API key. Please check your credentials.''), w + 1)"

definition always_network_error :: "document \<Rightarrow> nat \<Rightarrow> (thrown + string) \<times> nat" where
  "always_network_error d w =
     (Inl (Error ''Network error. Please check your internet connection.''), w + 1)"

definition fails_twice :: "document \<Rightarrow> nat \<Rightarrow> (thrown + string) \<times> nat" where
  "fails_twice d w =
     (if w < 2 then Inl (Error ''Request timeout. Please try again.'') else Inr ''data'',
      w + 1)"

definition always_succeeds :: "document \<Rightarrow> nat \<Rightarrow> (thrown + string) \<times> nat" where
  "always_succeeds d w = (Inr ''data'', w + 1)"

definition service_with_retries :: "int \<Rightarrow> service" where
  \<comment> \<open>a service with default configuration whose \<^verbatim>\<open>maxRetries\<close> field is \<open>n\<close>\<close>
  "service_with_retries n = (constructor default_env)\<lparr>maxRetries := n\<rparr>"

definition one_queued :: "environment \<Rightarrow> service" where
  \<comment> \<open>the service built in environment \<open>env\<close>, after the document behind reference
     \<open>1\<close> was admitted\<close>
  "one_queued env = (constructor env)\<lparr>processingQueue := [1]\<rparr>"

definition negative_workers_env :: environment where
  "negative_workers_env = default_env\<lparr>MAX_WORKERS := Some (- 1)\<rparr>"

definition negative_sizes_env :: environment where
  "negative_sizes_env = default_env\<lparr>BATCH_SIZE := Some (- 1), MAX_WORKERS := Some (- 2)\<rparr>"

definition one_each :: "(string, string) document_ai_service" where
  "one_each = \<lparr>svc_results = [(''doc-001'', ''data'')],
               svc_errors = [(''doc-002'', ''Request timeout. Please try again.'')]\<rparr>"

definition nothing_recorded :: "(string, string) document_ai_service" where
  "nothing_recorded = \<lparr>svc_results = [], svc_errors = []\<rparr>"

text \<open>
  A caller that admits documents one after the other (each with the time of its
  admission) and stops at the first rejection.
\<close>

fun admitAll :: "service \<Rightarrow> heap \<Rightarrow> (ref \<times> int) list \<Rightarrow> string + service" where
  "admitAll s h [] = Inr s"
| "admitAll s h ((d, now) # rest) =
     (case addToBatch s h d now of
        Inl msg \<Rightarrow> Inl msg
      | Inr (r, s') \<Rightarrow> admitAll s' h rest)"

definition two_slot_service :: service where
  "two_slot_service = constructor (default_env\<lparr>BATCH_SIZE := Some 2\<rparr>)"

definition failed_document :: document where
  \<comment> \<open>the first example document after one failed attempt at time 1000000\<close>
  "failed_document =
     (example_document ''doc-001'')
       \<lparr>processingAttempts := 1, lastProcessingAttempt := Some 1000000,
        processingStatus := Failed\<rparr>"

definition completed_document :: document where
  "completed_document =
     (example_document ''doc-004'')
       \<lparr>processingAttempts := 1, lastProcessingAttempt := Some 1000000,
        processingStatus := Completed\<rparr>"

definition example_heap :: heap where
  \<comment> \<open>three fresh documents behind the references 1, 2 and 3, a completed document
     behind 4, and documents without id behind every other reference\<close>
  "example_heap =
     (\<lambda>r. example_document [])
       (1 := example_document ''doc-001'', 2 := example_document ''doc-002'',
        3 := example_document ''doc-003'', 4 := completed_document)"



definition timeout_then_network :: "document \<Rightarrow> nat \<Rightarrow> (thrown + string) \<times> nat" where
  "timeout_then_network d w =
     (if w = 0 then Inl (Error ''Request timeout. Please try again.'')
      else Inl (Error ''Network error. Please check your internet connection.''),
      w + 1)"

text \<open>The service and the heap after the first example document failed once.\<close>

definition failed_service :: service where
  "failed_service = (constructor default_env)\<lparr>failedDocuments := [1]\<rparr>"

definition failed_heap :: heap where
  "failed_heap = example_heap(1 := failed_document)"


definition queueWithinCapacity :: "service \<Rightarrow> bool" where
  "queueWithinCapacity s =
     (processingQueue s = [] \<or> int (length (processingQueue s)) \<le> batchSize s)"

section \<open>Properties\<close>

subsection \<open>The retry loop\<close>


lemma shouldRetry_retryable:
  "retryableMessage m \<Longrightarrow> shouldRetry s m attempt = (int attempt < maxRetries s)"
  by (simp add: shouldRetry_def retryableMessage_def)

lemma shouldRetry_not_retryable:
  "\<not> retryableMessage m \<Longrightarrow> shouldRetry s m attempt = False"
  by (auto simp add: shouldRetry_def retryableMessage_def)

lemma shouldRetry_less: "shouldRetry s m attempt \<Longrightarrow> int attempt < maxRetries s"
  by (simp add: shouldRetry_def split: if_splits)

lemma authFailure_not_retryable: "authFailureMessage m \<Longrightarrow> \<not> retryableMessage m"
  by (auto simp add: authFailureMessage_def retryableMessage_def)

lemma invocations_simps [simp]:
  "invocations [] = 0"
  "invocations (Extract n # tr) = Suc (invocations tr)"
  "invocations (Sleep ms # tr) = invocations tr"
  by (simp_all add: invocations_def)

lemma loop_past_end:
  "maxRetries s < int attempt \<Longrightarrow>
   processDocument_loop s amb f d attempt l w = (Inr (failureResult s l), [], w)"
  by (simp add: processDocument_loop.simps)

lemma loop_result:
  assumes "int attempt \<le> maxRetries s" and "f d w = (Inr res, w1)"
  shows "processDocument_loop s amb f d attempt l w
           = (Inr \<lparr>success = True, result = Some res, error = None, attempts = None\<rparr>,
              [Extract attempt], w1)"
  using assms by (simp add: processDocument_loop.simps)

lemma loop_type_error:
  assumes "int attempt \<le> maxRetries s" and "f d w = (Inl (NonError t), w1)"
  shows "processDocument_loop s amb f d attempt l w = (Inl t, [Extract attempt], w1)"
  using assms by (simp add: processDocument_loop.simps)

lemma loop_break:
  assumes "int attempt \<le> maxRetries s" and "f d w = (Inl (Error m), w1)"
    and "\<not> shouldRetry s m attempt"
  shows "processDocument_loop s amb f d attempt l w
           = (Inr (failureResult s (Some m)), [Extract attempt], w1)"
  using assms by (simp add: processDocument_loop.simps)

lemma loop_continue:
  assumes "f d w = (Inl (Error m), w1)" and sr: "shouldRetry s m attempt"
    and "mathRandom amb w1 = (rnd, w2)"
    and "processDocument_loop s amb f d (attempt + 1) (Some m)
           (sleep amb (calculateRetryWaitTime s (int attempt) rnd) w2) = (r, tr, w4)"
  shows "processDocument_loop s amb f d attempt l w
           = (r, Extract attempt # Sleep (calculateRetryWaitTime s (int attempt) rnd) # tr, w4)"
  using assms shouldRetry_less[OF sr]
  by (subst processDocument_loop.simps) (simp add: Let_def)

lemma loop_success:
  "processDocument_loop s amb f d attempt l w = (Inr out, tr, w') \<Longrightarrow> success out \<Longrightarrow>
   attempts out = None \<and> error out = None \<and> result out \<noteq> None
   \<and> tr \<noteq> [] \<and> 1 \<le> invocations tr
   \<and> last tr = Extract (attempt + invocations tr - 1)
   \<and> int (attempt + invocations tr - 1) \<le> maxRetries s"
proof (induction "nat (maxRetries s + 1 - int attempt)" arbitrary: attempt l w out tr w')
  case 0
  then have "maxRetries s < int attempt" by simp
  then have "processDocument_loop s amb f d attempt l w = (Inr (failureResult s l), [], w)"
    by (rule loop_past_end)
  with "0.prems" show ?case by (auto simp add: failureResult_def)
next
  case (Suc k)
  then have le: "int attempt \<le> maxRetries s" by simp
  obtain r w1 where fw: "f d w = (r, w1)" by (cases "f d w")
  show ?case
  proof (cases r)
    case (Inr res)
    with fw have "processDocument_loop s amb f d attempt l w
           = (Inr \<lparr>success = True, result = Some res, error = None, attempts = None\<rparr>,
              [Extract attempt], w1)"
      by (intro loop_result[where f=f and d=d and w=w, OF le]) simp
    with Suc.prems le show ?thesis by auto
  next
    case (Inl e)
    show ?thesis
    proof (cases e)
      case (NonError t)
      with fw Inl have "processDocument_loop s amb f d attempt l w = (Inl t, [Extract attempt], w1)"
        by (intro loop_type_error[where f=f and d=d and w=w, OF le]) simp
      with Suc.prems show ?thesis by simp
    next
      case (Error m)
      with fw Inl have fe: "f d w = (Inl (Error m), w1)" by simp
      show ?thesis
      proof (cases "shouldRetry s m attempt")
        case False
        have "processDocument_loop s amb f d attempt l w
           = (Inr (failureResult s (Some m)), [Extract attempt], w1)"
          by (rule loop_break[where f=f and d=d and w=w, OF le fe False])
        with Suc.prems show ?thesis
          by (auto simp add: failureResult_def)
      next
        case sr: True
        obtain rnd w2 where rn: "mathRandom amb w1 = (rnd, w2)"
          by (cases "mathRandom amb w1")
        define w3 where "w3 = sleep amb (calculateRetryWaitTime s (int attempt) rnd) w2"
        obtain r' tr' w4 where rec:
          "processDocument_loop s amb f d (attempt + 1) (Some m) w3 = (r', tr', w4)"
          by (cases "processDocument_loop s amb f d (attempt + 1) (Some m) w3")
        have "processDocument_loop s amb f d attempt l w
           = (r', Extract attempt # Sleep (calculateRetryWaitTime s (int attempt) rnd) # tr', w4)"
          by (rule loop_continue[where f=f and d=d and w=w, OF fe sr rn rec[unfolded w3_def]])
        with Suc.prems(1)
        have eqs: "r' = Inr out"
          "tr = Extract attempt # Sleep (calculateRetryWaitTime s (int attempt) rnd) # tr'"
          by simp_all
        have k: "k = nat (maxRetries s + 1 - int (attempt + 1))" using Suc(2) by simp
        from Suc(1)[OF k rec[unfolded eqs(1)] Suc.prems(2)]
        have "attempts out = None \<and> error out = None \<and> result out \<noteq> None
            \<and> tr' \<noteq> [] \<and> 1 \<le> invocations tr' \<and> last tr' = Extract (attempt + 1 + invocations tr' - 1)
            \<and> int (attempt + 1 + invocations tr' - 1) \<le> maxRetries s" .
        then show ?thesis unfolding eqs(2) by simp
      qed
    qed
  qed
qed



subsection \<open>Chunks\<close>



lemma slice_chunk:
  assumes "0 \<le> i" "1 \<le> k" "i < int (length xs)"
  shows "slice xs i (i + k) = take (nat k) (drop (nat i) xs)"
proof -
  have "nat (min (i + k) (int (length xs)) - i) = min (nat k) (length xs - nat i)"
    using assms by (auto simp add: min_def)
  then show ?thesis using assms
    by (simp add: slice_def slice_index_def Let_def min_def)
qed

lemma chunkArray_loop_returns:
  assumes k: "1 \<le> k"
  shows "0 \<le> i \<Longrightarrow>
     \<exists>rest. chunkArray_loop xs k i chunks = Some (chunks @ rest)
          \<and> concat rest = drop (nat i) xs"
proof (induction "nat (int (length xs) - i)" arbitrary: i chunks rule: less_induct)
  case less
  show ?case
  proof (cases "i < int (length xs)")
    case False
    then show ?thesis using less.prems
      by (subst chunkArray_loop.simps) simp
  next
    case True
    have dec: "nat (int (length xs) - (i + k)) < nat (int (length xs) - i)"
      using True k by simp
    have nn: "0 \<le> i + k" using less.prems k by simp
    from less.hyps[OF dec nn, of "chunks @ [slice xs i (i + k)]"]
    obtain rest where rec:
      "chunkArray_loop xs k (i + k) (chunks @ [slice xs i (i + k)])
         = Some ((chunks @ [slice xs i (i + k)]) @ rest)"
      and cc: "concat rest = drop (nat (i + k)) xs" by blast
    have step: "chunkArray_loop xs k i chunks
        = Some (chunks @ (slice xs i (i + k) # rest))"
      using True rec by (subst chunkArray_loop.simps) simp
    have "nat (i + k) = nat k + nat i" using less.prems k by simp
    then have dd: "drop (nat (i + k)) xs = drop (nat k) (drop (nat i) xs)" by simp
    have "concat (slice xs i (i + k) # rest)
            = take (nat k) (drop (nat i) xs) @ drop (nat k) (drop (nat i) xs)"
      unfolding concat.simps cc dd slice_chunk[OF less.prems k True] ..
    then have "concat (slice xs i (i + k) # rest) = drop (nat i) xs"
      by (simp only: append_take_drop_id)
    with step show ?thesis by blast
  qed
qed

lemma chunkArray_returns:
  "1 \<le> k \<Longrightarrow> \<exists>chunks. chunkArray xs k = Some chunks \<and> concat chunks = xs"
  using chunkArray_loop_returns[of k 0 xs "[]"] by (simp add: chunkArray_def)

lemma chunkArray_loop_diverges_aux:
  assumes "chunkArray_loop xs k i chunks = Some y"
  shows "\<not> (k \<le> 0 \<and> i < int (length xs))"
proof (rule chunkArray_loop.raw_induct
         [where P = "\<lambda>xs k i chunks y. \<not> (k \<le> 0 \<and> i < int (length xs))", OF _ assms])
  fix loop :: "'a list \<Rightarrow> int \<Rightarrow> int \<Rightarrow> 'a list list \<Rightarrow> 'a list list option"
  fix array chunkSize i chunks y
  assume ih: "\<And>a b c d y. loop a b c d = Some y \<Longrightarrow> \<not> (b \<le> 0 \<and> c < int (length a))"
  assume body: "(if i < int (length array)
      then loop array chunkSize (i + chunkSize) (chunks @ [slice array i (i + chunkSize)])
      else Some chunks) = Some y"
  show "\<not> (chunkSize \<le> 0 \<and> i < int (length array))"
  proof
    assume a: "chunkSize \<le> 0 \<and> i < int (length array)"
    with body have "loop array chunkSize (i + chunkSize)
        (chunks @ [slice array i (i + chunkSize)]) = Some y" by simp
    from ih[OF this] a show False by simp
  qed
qed

lemma chunkArray_diverges:
  "k \<le> 0 \<Longrightarrow> xs \<noteq> [] \<Longrightarrow> chunkArray xs k = None"
  using chunkArray_loop_diverges_aux[of xs k 0 "[]"]
  by (cases "chunkArray xs k") (auto simp add: chunkArray_def)

lemma chunkArray_empty: "chunkArray [] k = Some []"
  by (simp add: chunkArray_def chunkArray_loop.simps)

lemma foldl_chunks:
  "foldl (\<lambda>st chunk. foldl g st chunk) st chunks = foldl g st (concat chunks)"
  by (induction chunks arbitrary: st) simp_all

subsection \<open>Batches\<close>

lemma processEntry_step:
  assumes "processEntry amb f (s, h, res, w) d = (s', h', res', w')"
  shows "processed res' = processed res
       \<and> completed res' + failed res' = completed res + failed res + 1
       \<and> message res' = message res
       \<and> processingQueue s' = processingQueue s
       \<and> batchSize s' = batchSize s \<and> maxWorkers s' = maxWorkers s
       \<and> (errors res = Some es \<and> length es = failed res
            \<longrightarrow> (\<exists>es'. errors res' = Some es' \<and> length es' = failed res'))"
  using assms
  by (auto simp add: processEntry_def Let_def split: prod.splits sum.splits if_splits)

lemma processEntry_fold:
  "foldl (processEntry amb f) (s, h, res, w) ds = (s', h', res', w') \<Longrightarrow>
   errors res = Some es \<Longrightarrow> length es = failed res \<Longrightarrow>
     processed res' = processed res
   \<and> completed res' + failed res' = completed res + failed res + length ds
   \<and> message res' = message res
   \<and> processingQueue s' = processingQueue s
   \<and> batchSize s' = batchSize s \<and> maxWorkers s' = maxWorkers s
   \<and> (\<exists>es'. errors res' = Some es' \<and> length es' = failed res')"
proof (induction ds arbitrary: s h res w es)
  case Nil
  then show ?case by simp
next
  case (Cons d ds)
  obtain s1 h1 res1 w1 where st: "processEntry amb f (s, h, res, w) d = (s1, h1, res1, w1)"
    by (cases "processEntry amb f (s, h, res, w) d")
  from processEntry_step[OF st, of es] Cons.prems(2,3)
  obtain es1 where a: "processed res1 = processed res"
    "completed res1 + failed res1 = completed res + failed res + 1"
    "message res1 = message res" "processingQueue s1 = processingQueue s"
    "batchSize s1 = batchSize s" "maxWorkers s1 = maxWorkers s"
    "errors res1 = Some es1" "length es1 = failed res1" by auto
  from Cons.prems(1) st
  have "foldl (processEntry amb f) (s1, h1, res1, w1) ds = (s', h', res', w')" by simp
  from Cons.IH[OF this a(7,8)] a show ?case by simp
qed



lemma processBatch_returns:
  assumes ne: "processingQueue s \<noteq> []" and mw: "1 \<le> maxWorkers s"
  shows "processBatch s h amb f w
         = Some (case foldl (processEntry amb f)
                        (s\<lparr>processingQueue := drop (nat (batchSize s)) (processingQueue s)\<rparr>,
                         h,
                         \<lparr>processed = length (take (nat (batchSize s)) (processingQueue s)),
                          completed = 0, failed = 0, errors = Some [], message = None\<rparr>, w)
                        (take (nat (batchSize s)) (processingQueue s))
                 of (s2, h2, results2, w2) \<Rightarrow> (results2, s2, h2, w2))"
proof -
  obtain chunks where c: "chunkArray (take (nat (batchSize s)) (processingQueue s)) (maxWorkers s)
      = Some chunks" and cc: "concat chunks = take (nat (batchSize s)) (processingQueue s)"
    using chunkArray_returns[OF mw] by blast
  show ?thesis using ne c
    by (simp add: processBatch_def Let_def foldl_chunks cc split: prod.splits)
qed

lemma processBatch_some_fold:
  assumes ne: "processingQueue s \<noteq> []"
    and ret: "processBatch s h amb f w = Some (res, s', h', w')"
  shows "foldl (processEntry amb f)
            (s\<lparr>processingQueue := drop (nat (batchSize s)) (processingQueue s)\<rparr>, h,
             \<lparr>processed = length (take (nat (batchSize s)) (processingQueue s)),
              completed = 0, failed = 0, errors = Some [], message = None\<rparr>, w)
            (take (nat (batchSize s)) (processingQueue s)) = (s', h', res, w')"
proof (cases "1 \<le> maxWorkers s")
  case True
  from processBatch_returns[OF ne True, of h amb f w] ret show ?thesis
    by (simp split: prod.splits)
next
  case False
  show ?thesis
  proof (cases "take (nat (batchSize s)) (processingQueue s) = []")
    case True
    then show ?thesis using ne ret
      by (simp add: processBatch_def Let_def chunkArray_empty)
  next
    case ne2: False
    have "maxWorkers s \<le> 0" using False by simp
    from chunkArray_diverges[OF this ne2] ne ret show ?thesis
      by (simp add: processBatch_def Let_def)
  qed
qed

lemma processBatch_summary:
  assumes ne: "processingQueue s \<noteq> []" and mw: "1 \<le> maxWorkers s"
  shows "\<exists>res s' h' w'. processBatch s h amb f w = Some (res, s', h', w')"
proof -
  obtain s2 h2 res2 w2 where "foldl (processEntry amb f)
            (s\<lparr>processingQueue := drop (nat (batchSize s)) (processingQueue s)\<rparr>, h,
             \<lparr>processed = length (take (nat (batchSize s)) (processingQueue s)),
              completed = 0, failed = 0, errors = Some [], message = None\<rparr>, w)
            (take (nat (batchSize s)) (processingQueue s)) = (s2, h2, res2, w2)"
    by (metis prod_cases4)
  with processBatch_returns[OF ne mw, of h amb f w] show ?thesis by simp
qed

lemma processBatch_relations:
  assumes ne: "processingQueue s \<noteq> []"
    and ret: "processBatch s h amb f w = Some (res, s', h', w')"
  shows "processed res = completed res + failed res
       \<and> (\<exists>es. errors res = Some es \<and> length es = failed res)
       \<and> processed res = min (length (processingQueue s)) (nat (batchSize s))
       \<and> processingQueue s' = drop (processed res) (processingQueue s)"
proof -
  let ?batch = "take (nat (batchSize s)) (processingQueue s)"
  from processEntry_fold[OF processBatch_some_fold[OF ne ret], of "[]"]
  have "processed res = length ?batch" "completed res + failed res = length ?batch"
    "processingQueue s' = drop (nat (batchSize s)) (processingQueue s)"
    "\<exists>es'. errors res = Some es' \<and> length es' = failed res" by simp_all
  moreover have "drop (nat (batchSize s)) (processingQueue s)
      = drop (min (length (processingQueue s)) (nat (batchSize s))) (processingQueue s)"
    by (simp add: min_def)
  ultimately show ?thesis by (simp add: min.commute)
qed

lemma processBatch_empty:
  "processingQueue s = [] \<Longrightarrow>
   processBatch s h amb f w
     = Some (\<lparr>processed = 0, completed = 0, failed = 0, errors = None,
              message = Some ''No documents in queue to process''\<rparr>, s, h, w)"
  by (simp add: processBatch_def)

lemma processBatch_diverges:
  "processingQueue s \<noteq> [] \<Longrightarrow> 1 \<le> batchSize s \<Longrightarrow> maxWorkers s \<le> 0 \<Longrightarrow>
   processBatch s h amb f w = None"
proof -
  assume a: "processingQueue s \<noteq> []" "1 \<le> batchSize s" "maxWorkers s \<le> 0"
  then have "take (nat (batchSize s)) (processingQueue s) \<noteq> []"
    by (cases "processingQueue s") (auto simp: take_Cons')
  from chunkArray_diverges[OF a(3) this] a(1) show ?thesis
    by (simp add: processBatch_def Let_def)
qed

subsection \<open>Concrete runs\<close>

lemma service_with_retries_fields [simp]:
  "maxRetries (service_with_retries n) = n"
  "maxRetryWaitTime (service_with_retries n) = 30"
  "failedDocuments (service_with_retries n) = []"
  "completedDocuments (service_with_retries n) = []"
  by (simp_all add: service_with_retries_def constructor_def default_env_def int_or_def)

lemma retryable_network_error:
  "retryableMessage ''Network error. Please check your internet connection.''"
  by (simp add: retryableMessage_def)

lemma auth_failure_invalid_key:
  "authFailureMessage ''Invalid API key. Please check your credentials.''"
  by (simp add: authFailureMessage_def)

lemma run_fails_twice:
  "processDocument (service_with_retries 3) example_ambient fails_twice
      (example_document ''doc-001'') 0
   = (Inr \<lparr>success = True, result = Some ''data'', error = None, attempts = None\<rparr>,
      [Extract 1, Sleep 1500, Extract 2, Sleep 2500, Extract 3], 3)"
  by (simp add: processDocument_def processDocument_loop.simps fails_twice_def
        example_ambient_def shouldRetry_def calculateRetryWaitTime_def js_pow2_def Let_def)

lemma run_network_error_3:
  "processDocument (service_with_retries 3) example_ambient always_network_error
      (example_document ''doc-001'') 0
   = (Inr \<lparr>success = False, result = None,
           error = Some ''Network error. Please check your internet connection.'',
           attempts = Some 3\<rparr>,
      [Extract 1, Sleep 1500, Extract 2, Sleep 2500, Extract 3], 3)"
  by (simp add: processDocument_def processDocument_loop.simps always_network_error_def
        example_ambient_def shouldRetry_def calculateRetryWaitTime_def js_pow2_def Let_def
        failureResult_def)

lemma run_unauthorized_3:
  "processDocument (service_with_retries 3) example_ambient always_unauthorized
      (example_document ''doc-001'') 0
   = (Inr \<lparr>success = False, result = None,
           error = Some ''Invalid API key. Please check your credentials.'',
           attempts = Some 3\<rparr>,
      [Extract 1], 1)"
  by (simp add: processDocument_def processDocument_loop.simps always_unauthorized_def
        example_ambient_def shouldRetry_def failureResult_def Let_def)





lemma not_retryable_nonempty: "\<not> retryableMessage m \<Longrightarrow> m \<noteq> []"
  by (auto simp add: retryableMessage_def)

lemma loop_script:
  fixes script :: "nat \<Rightarrow> thrown + 'r" and count :: "'w \<Rightarrow> nat"
  assumes cnt_f: "\<And>w. count (snd (f d w)) = Suc (count w)"
    and cnt_r: "\<And>w. count (snd (mathRandom amb w)) = count w"
    and cnt_s: "\<And>ms w. count (sleep amb ms w) = count w"
    and scr: "\<And>w. fst (f d w) = script (count w)"
    and pre: "\<And>i. i < k \<Longrightarrow> \<exists>m. script i = Inl (Error m) \<and> retryableMessage m"
    and stop: "\<And>m. script k = Inl (Error m) \<Longrightarrow> \<not> shouldRetry s m (Suc k)"
    and le: "int (Suc k) \<le> maxRetries s"
  shows "count w \<le> k \<Longrightarrow>
     \<exists>tr w'. processDocument_loop s amb f d (Suc (count w)) l w
        = (case script k of
             Inr res \<Rightarrow> Inr \<lparr>success = True, result = Some res, error = None,
                              attempts = None\<rparr>
           | Inl (Error m) \<Rightarrow> Inr (failureResult s (Some m))
           | Inl (NonError t) \<Rightarrow> Inl t, tr, w')
      \<and> invocations tr = Suc k - count w \<and> last tr = Extract (Suc k)"
proof (induction "k - count w" arbitrary: w l)
  case 0
  then have eq: "count w = k" by simp
  obtain r w1 where fw: "f d w = (r, w1)" by (cases "f d w")
  with scr[of w] eq have r: "r = script k" by simp
  have lea: "int (Suc (count w)) \<le> maxRetries s" using le eq by simp
  show ?case
  proof (cases "script k")
    case (Inr res)
    with fw r have "f d w = (Inr res, w1)" by simp
    from loop_result[where f=f and d=d and w=w, OF lea this, of amb l] Inr eq
    show ?thesis by simp
  next
    case (Inl e)
    show ?thesis
    proof (cases e)
      case (NonError t)
      with fw r Inl have "f d w = (Inl (NonError t), w1)" by simp
      from loop_type_error[where f=f and d=d and w=w, OF lea this, of amb l] Inl NonError eq
      show ?thesis by simp
    next
      case (Error m)
      with fw r Inl have fe: "f d w = (Inl (Error m), w1)" by simp
      have "\<not> shouldRetry s m (Suc (count w))" using stop[of m] Inl Error eq by simp
      from loop_break[where f=f and d=d and w=w, OF lea fe this, of amb l] Inl Error eq
      show ?thesis by simp
    qed
  qed
next
  case (Suc n)
  then have lt: "count w < k" by simp
  from pre[OF lt] obtain m where sm: "script (count w) = Inl (Error m)"
    and rm: "retryableMessage m" by blast
  obtain r w1 where fw: "f d w = (r, w1)" by (cases "f d w")
  with scr[of w] sm have fe: "f d w = (Inl (Error m), w1)" by simp
  have c1: "count w1 = Suc (count w)" using cnt_f[of w] fw by simp
  obtain rnd w2 where rn: "mathRandom amb w1 = (rnd, w2)" by (cases "mathRandom amb w1")
  have c2: "count w2 = Suc (count w)" using cnt_r[of w1] rn c1 by simp
  let ?w3 = "sleep amb (calculateRetryWaitTime s (int (Suc (count w))) rnd) w2"
  have c3: "count ?w3 = Suc (count w)" using cnt_s c2 by simp
  have sr: "shouldRetry s m (Suc (count w))"
    using rm lt le by (simp add: shouldRetry_retryable)
  have n: "n = k - count ?w3" using Suc(2) c3 by simp
  have lek: "count ?w3 \<le> k" using lt c3 by simp
  from Suc(1)[OF n lek, of "Some m"]
  obtain tr w' where rec: "processDocument_loop s amb f d (Suc (count ?w3)) (Some m) ?w3
        = (case script k of
             Inr res \<Rightarrow> Inr \<lparr>success = True, result = Some res, error = None,
                              attempts = None\<rparr>
           | Inl (Error m) \<Rightarrow> Inr (failureResult s (Some m))
           | Inl (NonError t) \<Rightarrow> Inl t, tr, w')"
    and inv: "invocations tr = Suc k - count ?w3" and la: "last tr = Extract (Suc k)"
    by blast
  have rec': "processDocument_loop s amb f d (Suc (count w) + 1) (Some m) ?w3
        = (case script k of
             Inr res \<Rightarrow> Inr \<lparr>success = True, result = Some res, error = None,
                              attempts = None\<rparr>
           | Inl (Error m) \<Rightarrow> Inr (failureResult s (Some m))
           | Inl (NonError t) \<Rightarrow> Inl t, tr, w')"
    using rec c3 by simp
  have ne: "tr \<noteq> []" using inv c3 lt by auto
  from loop_continue[where f=f and d=d and w=w, OF fe sr rn rec', of l] inv c3 la lt ne
  show ?case by (auto simp add: Suc_diff_le)
qed

subsection \<open>Outcome of the retry policy\<close>

text \<open>
  Claim C1, as the code has it. The extraction function answers its calls according to
  a script: the call number \<open>i + 1\<close> returns or throws \<open>script i\<close> (the function \<open>count\<close>
  reads the number of calls made so far from the world; the ambient functions do not
  change it). Let the first \<open>k\<close> calls fail with retryable messages and let
  \<open>k + 1 \<le> maxRetries\<close>. If call \<open>k + 1\<close> returns \<open>res\<close>, \<^verbatim>\<open>processDocument\<close> returns
  \<^verbatim>\<open>{success: true, result: res}\<close>, an object without an attempt count, after exactly
  \<open>k + 1\<close> calls, the last of them the successful one. If call \<open>k + 1\<close> fails with a
  retryable message and \<open>k + 1 = maxRetries\<close>, it returns
  \<^verbatim>\<open>{success: false, error, attempts}\<close> with the message of that last error (or
  \<^verbatim>\<open>'Max retries exceeded'\<close> for an empty message) and \<open>attempts = maxRetries\<close>, which is
  the number of calls made. If call \<open>k + 1\<close> fails with a message that is not retryable,
  it returns a failure with that message after exactly \<open>k + 1\<close> calls.
\<close>

theorem processDocument_outcome:
  fixes script :: "nat \<Rightarrow> thrown + 'r" and count :: "'w \<Rightarrow> nat"
  assumes "\<And>w. count (snd (extractionFunction d w)) = Suc (count w)"
    and "\<And>w. count (snd (mathRandom amb w)) = count w"
    and "\<And>ms w. count (sleep amb ms w) = count w"
    and "\<And>w. fst (extractionFunction d w) = script (count w)"
    and "count w = 0"
    and "\<And>i. i < k \<Longrightarrow> \<exists>m. script i = Inl (Error m) \<and> retryableMessage m"
    and "int (Suc k) \<le> maxRetries s"
  shows "(script k = Inr res \<longrightarrow>
           (\<exists>tr w'. processDocument s amb extractionFunction d w
               = (Inr \<lparr>success = True, result = Some res, error = None, attempts = None\<rparr>,
                  tr, w')
             \<and> invocations tr = Suc k \<and> last tr = Extract (Suc k)))
       \<and> (script k = Inl (Error m) \<and> retryableMessage m \<and> int (Suc k) = maxRetries s \<longrightarrow>
           (\<exists>tr w'. processDocument s amb extractionFunction d w
               = (Inr \<lparr>success = False, result = None,
                       error = Some (if m = [] then ''Max retries exceeded'' else m),
                       attempts = Some (maxRetries s)\<rparr>, tr, w')
             \<and> int (invocations tr) = maxRetries s))
       \<and> (script k = Inl (Error m) \<and> \<not> retryableMessage m \<longrightarrow>
           (\<exists>out tr w'. processDocument s amb extractionFunction d w = (Inr out, tr, w')
             \<and> \<not> success out \<and> result out = None \<and> error out = Some m
             \<and> invocations tr = Suc k))"
proof (intro conjI impI)
  have ls: "\<exists>tr w'. processDocument_loop s amb extractionFunction d (Suc 0) None w
        = (case script k of
             Inr res \<Rightarrow> Inr \<lparr>success = True, result = Some res, error = None,
                              attempts = None\<rparr>
           | Inl (Error m) \<Rightarrow> Inr (failureResult s (Some m))
           | Inl (NonError t) \<Rightarrow> Inl t, tr, w')
      \<and> invocations tr = Suc k \<and> last tr = Extract (Suc k)"
    if st: "\<And>m'. script k = Inl (Error m') \<Longrightarrow> \<not> shouldRetry s m' (Suc k)"
  proof -
    have c: "count w \<le> k" using assms(5) by simp
    from loop_script[where f=extractionFunction and d=d and amb=amb and count=count
      and script=script and k=k and s=s and w=w and l=None,
      OF assms(1) assms(2) assms(3) assms(4) assms(6) st assms(7) c]
    show ?thesis using assms(5) by simp
  qed
  {
    assume a: "script k = Inr res"
    then have "\<And>m'. script k = Inl (Error m') \<Longrightarrow> \<not> shouldRetry s m' (Suc k)" by simp
    from ls[OF this] a
    show "\<exists>tr w'. processDocument s amb extractionFunction d w
               = (Inr \<lparr>success = True, result = Some res, error = None, attempts = None\<rparr>,
                  tr, w')
             \<and> invocations tr = Suc k \<and> last tr = Extract (Suc k)"
      by (simp add: processDocument_def)
  next
    assume a: "script k = Inl (Error m) \<and> retryableMessage m \<and> int (Suc k) = maxRetries s"
    then have "\<And>m'. script k = Inl (Error m') \<Longrightarrow> \<not> shouldRetry s m' (Suc k)"
      by (simp add: shouldRetry_retryable)
    from ls[OF this] a
    show "\<exists>tr w'. processDocument s amb extractionFunction d w
               = (Inr \<lparr>success = False, result = None,
                       error = Some (if m = [] then ''Max retries exceeded'' else m),
                       attempts = Some (maxRetries s)\<rparr>, tr, w')
             \<and> int (invocations tr) = maxRetries s"
      by (auto simp add: processDocument_def failureResult_def)
  next
    assume a: "script k = Inl (Error m) \<and> \<not> retryableMessage m"
    then have "\<And>m'. script k = Inl (Error m') \<Longrightarrow> \<not> shouldRetry s m' (Suc k)"
      by (simp add: shouldRetry_not_retryable)
    from ls[OF this] a not_retryable_nonempty[of m]
    show "\<exists>out tr w'. processDocument s amb extractionFunction d w = (Inr out, tr, w')
             \<and> \<not> success out \<and> result out = None \<and> error out = Some m
             \<and> invocations tr = Suc k"
      by (auto simp add: processDocument_def failureResult_def)
  }
qed

lemma retryable_timeout: "retryableMessage ''Request timeout. Please try again.''"
  by (simp add: retryableMessage_def)

lemma retryable_forbidden:
  "retryableMessage ''Access denied. Please check your API permissions.''"
  by (simp add: retryableMessage_def)

text \<open>
  C1 at \<open>maxRetries = 3\<close>: an extraction that times out twice and then succeeds; one
  that times out once and then meets network errors (the outcome carries the last
  message); one that meets an authentication error at once.
\<close>

theorem processDocument_outcome_witness:
  "int (Suc 2) \<le> maxRetries (service_with_retries 3)
   \<and> retryableMessage ''Request timeout. Please try again.''
   \<and> retryableMessage ''Network error. Please check your internet connection.''
   \<and> \<not> retryableMessage ''Invalid API key. Please check your credentials.''
   \<and> (\<exists>tr w'. processDocument (service_with_retries 3) example_ambient fails_twice
                    (example_document ''doc-001'') 0
          = (Inr \<lparr>success = True, result = Some ''data'', error = None, attempts = None\<rparr>,
             tr, w')
        \<and> invocations tr = 3 \<and> last tr = Extract 3)
   \<and> (\<exists>tr w'. processDocument (service_with_retries 3) example_ambient timeout_then_network
                    (example_document ''doc-001'') 0
          = (Inr \<lparr>success = False, result = None,
                  error = Some ''Network error. Please check your internet connection.'',
                  attempts = Some 3\<rparr>, tr, w')
        \<and> int (invocations tr) = 3)
   \<and> (\<exists>out tr w'. processDocument (service_with_retries 3) example_ambient
                    always_unauthorized (example_document ''doc-001'') 0 = (Inr out, tr, w')
        \<and> \<not> success out \<and> result out = None
        \<and> error out = Some ''Invalid API key. Please check your credentials.''
        \<and> invocations tr = 1)"
proof -
  let ?d = "example_document ''doc-001''"
  let ?s = "service_with_retries 3"
  let ?to = "''Request timeout. Please try again.''"
  let ?ne = "''Network error. Please check your internet connection.''"
  let ?ik = "''Invalid API key. Please check your credentials.''"
  have nr: "\<not> retryableMessage ?ik"
    by (rule authFailure_not_retryable[OF auth_failure_invalid_key])
  have amb: "\<And>w. id (snd (mathRandom example_ambient w)) = id w"
    "\<And>ms w. id (sleep example_ambient ms w) = id w"
    by (simp_all add: example_ambient_def)
  have le2: "int (Suc 2) \<le> maxRetries ?s" and le0: "int (Suc 0) \<le> maxRetries ?s"
    by simp_all
  have a: "\<exists>tr w'. processDocument ?s example_ambient fails_twice ?d 0
          = (Inr \<lparr>success = True, result = Some ''data'', error = None, attempts = None\<rparr>,
             tr, w')
        \<and> invocations tr = Suc 2 \<and> last tr = Extract (Suc 2)"
  proof (rule processDocument_outcome
      [where count=id and k=2 and res="''data''" and w=0 and m="[]"
         and script="\<lambda>i. if i < 2 then Inl (Error ?to) else Inr ''data''",
       OF _ amb _ _ _ le2, THEN conjunct1, rule_format])
    show "\<And>w. id (snd (fails_twice ?d w)) = Suc (id w)" by (simp add: fails_twice_def)
    show "\<And>w. fst (fails_twice ?d w)
              = (if id w < 2 then Inl (Error ?to) else Inr ''data'')"
      by (simp add: fails_twice_def)
    show "id (0::nat) = 0" by simp
    show "\<And>i. i < 2 \<Longrightarrow> \<exists>m. (if i < 2 then Inl (Error ?to) else Inr ''data'')
               = (Inl (Error m) :: thrown + string) \<and> retryableMessage m"
      using retryable_timeout by simp
    show "(if (2::nat) < 2 then Inl (Error ?to) else Inr ''data'')
            = (Inr ''data'' :: thrown + string)" by simp
  qed
  have b: "\<exists>tr w'. processDocument ?s example_ambient timeout_then_network ?d 0
          = (Inr \<lparr>success = False, result = None,
                  error = Some (if ?ne = [] then ''Max retries exceeded'' else ?ne),
                  attempts = Some (maxRetries ?s)\<rparr>, tr, w')
        \<and> int (invocations tr) = maxRetries ?s"
  proof (rule processDocument_outcome
      [where count=id and k=2 and res="''data''" and w=0 and m="?ne"
         and script="\<lambda>i. if i = 0 then Inl (Error ?to) else Inl (Error ?ne)",
       OF _ amb _ _ _ le2, THEN conjunct2, THEN conjunct1, rule_format])
    show "\<And>w. id (snd (timeout_then_network ?d w)) = Suc (id w)"
      by (simp add: timeout_then_network_def)
    show "\<And>w. fst (timeout_then_network ?d w)
              = (if id w = 0 then Inl (Error ?to) else Inl (Error ?ne))"
      by (simp add: timeout_then_network_def)
    show "id (0::nat) = 0" by simp
    show "\<And>i. i < 2 \<Longrightarrow> \<exists>m. (if i = 0 then Inl (Error ?to) else Inl (Error ?ne))
               = (Inl (Error m) :: thrown + string) \<and> retryableMessage m"
      using retryable_timeout retryable_network_error by simp
    show "(if (2::nat) = 0 then Inl (Error ?to) else Inl (Error ?ne))
              = (Inl (Error ?ne) :: thrown + string)
          \<and> retryableMessage ?ne \<and> int (Suc 2) = maxRetries ?s"
      using retryable_network_error by simp
  qed
  have c: "\<exists>out tr w'. processDocument ?s example_ambient always_unauthorized ?d 0
              = (Inr out, tr, w')
        \<and> \<not> success out \<and> result out = None \<and> error out = Some ?ik
        \<and> invocations tr = Suc 0"
  proof (rule processDocument_outcome
      [where count=id and k=0 and res="''data''" and w=0 and m="?ik"
         and script="\<lambda>i. Inl (Error ?ik)",
       OF _ amb _ _ _ le0, THEN conjunct2, THEN conjunct2, rule_format])
    show "\<And>w. id (snd (always_unauthorized ?d w)) = Suc (id w)"
      by (simp add: always_unauthorized_def)
    show "\<And>w. fst (always_unauthorized ?d w) = (Inl (Error ?ik) :: thrown + string)"
      by (simp add: always_unauthorized_def)
    show "id (0::nat) = 0" by simp
    show "\<And>i. i < (0::nat) \<Longrightarrow> \<exists>m. (Inl (Error ?ik) :: thrown + string) = Inl (Error m)
                \<and> retryableMessage m" by simp
    show "(Inl (Error ?ik) :: thrown + string) = Inl (Error ?ik) \<and> \<not> retryableMessage ?ik"
      using nr by simp
  qed
  from a b c nr retryable_timeout retryable_network_error le2
  show ?thesis by (simp add: numeral_3_eq_3)
qed

text \<open>
  The scenario of claim C1 (\<open>maxRetries = 3\<close>, two retryable failures, then success):
  three calls are made, and the returned object has no attempt count.
\<close>

theorem processDocument_outcome_counterexample:
  "fst (processDocument (service_with_retries 3) example_ambient fails_twice
          (example_document ''doc-001'') 0)
     = Inr \<lparr>success = True, result = Some ''data'', error = None, attempts = None\<rparr>
   \<and> invocations (fst (snd (processDocument (service_with_retries 3) example_ambient
                               fails_twice (example_document ''doc-001'') 0))) = 3"
  by (simp add: run_fails_twice)







lemma example_heap_refs [simp]:
  "example_heap 0 = example_document []"
  "example_heap 1 = example_document ''doc-001''"
  "example_heap (Suc 0) = example_document ''doc-001''"
  "example_heap 2 = example_document ''doc-002''"
  "example_heap 3 = example_document ''doc-003''"
  "example_heap 4 = completed_document"
  by (simp_all add: example_heap_def)








subsection \<open>Construction\<close>

lemma constructor_default_fields [simp]:
  "batchSize (constructor default_env) = 4"
  "maxWorkers (constructor default_env) = 2"
  "maxRetries (constructor default_env) = 80"
  "maxRetryWaitTime (constructor default_env) = 30"
  "processingQueue (constructor default_env) = []"
  "completedDocuments (constructor default_env) = []"
  "failedDocuments (constructor default_env) = []"
  by (simp_all add: constructor_def default_env_def int_or_def)

lemma example_document_valid: "validate (example_document i) = [] \<longleftrightarrow> i \<noteq> []"
  by (simp add: validate_def example_document_def truthy_size_def validateForProcessing_def
      local_pdf_def exists_def isReadable_def isWithinSizeLimit_def isSupportedType_def
      supportedExtensions_def)

lemma example_document_processable: "ok (canBeProcessed (example_document i) now)"
  by (simp add: canBeProcessed_def example_document_def truthy_size_def isLocalPath_def
      local_pdf_def exists_def supportedTypes_def Let_def)

lemma add_first_document:
  "1 \<le> batchSize (constructor env) \<Longrightarrow>
   addToBatch (constructor env) example_heap 1 now
   = Inr (\<lparr>add_success = True, add_documentId = ''doc-001'', queuePosition = 1,
           estimatedWaitTime = js_ceil (js_div 5 (of_int (maxWorkers (constructor env))))\<rparr>,
          one_queued env)"
  using example_document_valid[of "''doc-001''"]
    example_document_processable[of "''doc-001''" now]
  by (simp add: addToBatch_def canAddToBatch_def Let_def calculateEstimatedWaitTime_def
        one_queued_def)
     (simp add: constructor_def example_document_def)

text \<open>
  Claim C2, as the code has it. The constructor has no failing branch: for every
  environment it returns a service with empty queue and result lists. A value of
  \<^verbatim>\<open>BATCH_SIZE\<close> or \<^verbatim>\<open>MAX_WORKERS\<close> that parses to \<open>0\<close> or \<^verbatim>\<open>NaN\<close> is replaced by the
  default (4, respectively 2), so the effective \<open>batchSize\<close> and \<open>maxWorkers\<close> are never
  \<open>0\<close>; a negative value is kept as it is.
\<close>

theorem constructor_accepts_every_environment:
  "batchSize (constructor env) = int_or (BATCH_SIZE env) 4
   \<and> maxWorkers (constructor env) = int_or (MAX_WORKERS env) 2
   \<and> batchSize (constructor env) \<noteq> 0
   \<and> maxWorkers (constructor env) \<noteq> 0
   \<and> (batchSize (constructor env) < 0 \<longleftrightarrow> (\<exists>n. BATCH_SIZE env = Some n \<and> n < 0))
   \<and> (maxWorkers (constructor env) < 0 \<longleftrightarrow> (\<exists>n. MAX_WORKERS env = Some n \<and> n < 0))
   \<and> processingQueue (constructor env) = []
   \<and> completedDocuments (constructor env) = []
   \<and> failedDocuments (constructor env) = []"
  by (auto simp add: constructor_def int_or_def split: option.splits)

text \<open>C2 with no variable set, and with both variables set to \<open>0\<close>.\<close>

theorem constructor_accepts_every_environment_witness:
  "batchSize (constructor default_env) = 4 \<and> maxWorkers (constructor default_env) = 2
   \<and> batchSize (constructor (default_env\<lparr>BATCH_SIZE := Some 0, MAX_WORKERS := Some 0\<rparr>)) = 4
   \<and> maxWorkers (constructor (default_env\<lparr>BATCH_SIZE := Some 0, MAX_WORKERS := Some 0\<rparr>)) = 2"
  using constructor_accepts_every_environment[of default_env]
    constructor_accepts_every_environment
      [of "default_env\<lparr>BATCH_SIZE := Some 0, MAX_WORKERS := Some 0\<rparr>"]
  by (simp add: default_env_def int_or_def)

text \<open>
  Claim C2 at \<^verbatim>\<open>BATCH_SIZE=-1\<close>, \<^verbatim>\<open>MAX_WORKERS=-2\<close>: construction returns a service
  whose effective \<open>batchSize\<close> and \<open>maxWorkers\<close> are negative, rather than failing.
\<close>

theorem constructor_accepts_every_environment_counterexample:
  "batchSize (constructor negative_sizes_env) = - 1
   \<and> maxWorkers (constructor negative_sizes_env) = - 2
   \<and> processingQueue (constructor negative_sizes_env) = []"
  by (simp add: constructor_def negative_sizes_env_def default_env_def int_or_def)


subsection \<open>Admission\<close>

lemma list_ex_id:
  "list_ex (\<lambda>doc. doc_id (h doc) = i) q \<longleftrightarrow> i \<in> (\<lambda>q. doc_id (h q)) ` set q"
  by (auto simp add: list_ex_iff)

lemma canAddToBatch_invalid:
  "validate (h d) \<noteq> [] \<Longrightarrow>
   canAddToBatch s h d now
   = \<lparr>ok = False, reason = ''Document validation failed: '' @ join (validate (h d)) '', '',
      code = ''VALIDATION_FAILED''\<rparr>"
  by (simp add: canAddToBatch_def Let_def)

lemma canAddToBatch_unprocessable:
  "validate (h d) = [] \<Longrightarrow> \<not> ok (canBeProcessed (h d) now) \<Longrightarrow>
   canAddToBatch s h d now
   = \<lparr>ok = False, reason = reason (canBeProcessed (h d) now),
      code = code (canBeProcessed (h d) now)\<rparr>"
  by (simp add: canAddToBatch_def Let_def)

lemma canAddToBatch_full:
  "locallyValid (h d) now \<Longrightarrow> batchSize s \<le> int (length (processingQueue s)) \<Longrightarrow>
   canAddToBatch s h d now
   = \<lparr>ok = False, reason = ''Batch is full ('' @ num_str (batchSize s) @ '' documents)'',
      code = ''BATCH_FULL''\<rparr>"
  by (simp add: canAddToBatch_def Let_def locallyValid_def)

lemma canAddToBatch_duplicate:
  "locallyValid (h d) now \<Longrightarrow> int (length (processingQueue s)) < batchSize s \<Longrightarrow>
   doc_id (h d) \<in> (\<lambda>q. doc_id (h q)) ` set (processingQueue s) \<Longrightarrow>
   canAddToBatch s h d now
   = \<lparr>ok = False, reason = ''Document is already in processing queue'',
      code = ''ALREADY_IN_QUEUE''\<rparr>"
  by (simp add: canAddToBatch_def Let_def locallyValid_def list_ex_id)

lemma canAddToBatch_ready:
  "locallyValid (h d) now \<Longrightarrow> int (length (processingQueue s)) < batchSize s \<Longrightarrow>
   doc_id (h d) \<notin> (\<lambda>q. doc_id (h q)) ` set (processingQueue s) \<Longrightarrow>
   canAddToBatch s h d now
   = \<lparr>ok = True, reason = ''Document can be added to batch'', code = ''READY_TO_ADD''\<rparr>"
  by (simp add: canAddToBatch_def Let_def locallyValid_def list_ex_id)

lemma canAddToBatch_ok_iff:
  "ok (canAddToBatch s h d now) \<longleftrightarrow>
     locallyValid (h d) now \<and> int (length (processingQueue s)) < batchSize s
     \<and> doc_id (h d) \<notin> (\<lambda>q. doc_id (h q)) ` set (processingQueue s)"
  by (auto simp add: canAddToBatch_def Let_def locallyValid_def list_ex_id)

lemma addToBatch_rejected:
  "\<not> ok (canAddToBatch s h d now) \<Longrightarrow>
   addToBatch s h d now = Inl (''Cannot add document to batch: '' @ reason (canAddToBatch s h d now))"
  by (simp add: addToBatch_def Let_def)

lemma addToBatch_accepted:
  "ok (canAddToBatch s h d now) \<Longrightarrow>
   addToBatch s h d now
   = Inr (\<lparr>add_success = True, add_documentId = doc_id (h d),
           queuePosition = length (processingQueue s) + 1,
           estimatedWaitTime =
             js_ceil (js_div (real (length (processingQueue s) + 1) * 5)
                             (of_int (maxWorkers s)))\<rparr>,
          s\<lparr>processingQueue := processingQueue s @ [d]\<rparr>)"
  by (simp add: addToBatch_def Let_def calculateEstimatedWaitTime_def)

lemma addToBatch_rejects_iff:
  "(\<exists>msg. addToBatch s h d now = Inl msg) \<longleftrightarrow>
     (\<not> locallyValid (h d) now \<or> batchSize s \<le> int (length (processingQueue s))
      \<or> doc_id (h d) \<in> (\<lambda>q. doc_id (h q)) ` set (processingQueue s))"
proof (cases "ok (canAddToBatch s h d now)")
  case True
  then show ?thesis using addToBatch_accepted[OF True] canAddToBatch_ok_iff[where s=s and h=h and d=d and now=now]
    by auto
next
  case False
  then show ?thesis using addToBatch_rejected[OF False] canAddToBatch_ok_iff[where s=s and h=h and d=d and now=now]
    by auto
qed

lemma admitAll_within_capacity:
  "int (length (processingQueue s)) + int (length ds) \<le> batchSize s \<Longrightarrow>
   distinct (map (\<lambda>q. doc_id (h q)) (processingQueue s) @ map (\<lambda>p. doc_id (h (fst p))) ds) \<Longrightarrow>
   (\<forall>(d, now) \<in> set ds. locallyValid (h d) now) \<Longrightarrow>
   admitAll s h ds = Inr (s\<lparr>processingQueue := processingQueue s @ map fst ds\<rparr>)"
proof (induction ds arbitrary: s)
  case Nil
  then show ?case by simp
next
  case (Cons p ds)
  obtain d now where p: "p = (d, now)" by (cases p)
  have okd: "ok (canAddToBatch s h d now)"
    using Cons.prems p by (auto simp add: canAddToBatch_ok_iff)
  let ?s' = "s\<lparr>processingQueue := processingQueue s @ [d]\<rparr>"
  have "admitAll ?s' h ds = Inr (?s'\<lparr>processingQueue := processingQueue ?s' @ map fst ds\<rparr>)"
    using Cons.prems p by (intro Cons.IH) auto
  then show ?case using addToBatch_accepted[OF okd] p by simp
qed

lemma example_locallyValid: "i \<noteq> [] \<Longrightarrow> locallyValid (example_document i) now"
  by (simp add: locallyValid_def example_document_valid example_document_processable)

lemma example_doc_id [simp]: "doc_id (example_document i) = i"
  by (simp add: example_document_def)

lemma two_slot_fields [simp]:
  "batchSize two_slot_service = 2" "maxWorkers two_slot_service = 2"
  "processingQueue two_slot_service = []"
  by (simp_all add: two_slot_service_def constructor_def default_env_def int_or_def)

lemma completed_document_checks:
  "validate completed_document = []"
  "canBeProcessed completed_document 1040000
   = \<lparr>ok = False, reason = ''Document has already been processed successfully'',
      code = ''ALREADY_COMPLETED''\<rparr>"
  by (simp_all add: completed_document_def validate_def
      example_document_def truthy_size_def validateForProcessing_def
      local_pdf_def exists_def isReadable_def isWithinSizeLimit_def isSupportedType_def
      supportedExtensions_def canBeProcessed_def isLocalPath_def supportedTypes_def)

lemma num_str_2: "num_str 2 = ''2''"
  by (simp add: num_str_def nat_str.simps)

text \<open>
  Claim C3. The local validity check of a document is what \<^verbatim>\<open>canAddToBatch\<close> asks
  of the document itself: \<^verbatim>\<open>validate()\<close> and \<^verbatim>\<open>canBeProcessed()\<close>. \<^verbatim>\<open>addToBatch\<close>
  throws exactly when that check fails, the queue length is at least \<open>batchSize\<close>, or a
  queued document has the same id; the message of the thrown error names the first of
  these reasons in that order (codes \<^verbatim>\<open>VALIDATION_FAILED\<close> or the code of
  \<^verbatim>\<open>canBeProcessed\<close>, \<^verbatim>\<open>BATCH_FULL\<close>, \<^verbatim>\<open>ALREADY_IN_QUEUE\<close>). A throw happens before
  any assignment, so the service is the one the call started with. On acceptance the
  document is appended at the end of the queue, and the result holds the new queue
  length as position and \<^verbatim>\<open>ceil(5 * length / maxWorkers)\<close> as estimated wait. With
  \<open>batchSize = B\<close>, admitting \<open>B\<close> valid documents with distinct ids into an empty queue
  succeeds and keeps their order, and one more valid document is rejected because the
  batch is full.
\<close>

theorem addToBatch_admission:
  "((\<exists>msg. addToBatch s h d now = Inl msg) \<longleftrightarrow>
       (\<not> locallyValid (h d) now \<or> batchSize s \<le> int (length (processingQueue s))
        \<or> doc_id (h d) \<in> (\<lambda>q. doc_id (h q)) ` set (processingQueue s)))
   \<and> (validate (h d) \<noteq> [] \<longrightarrow>
        code (canAddToBatch s h d now) = ''VALIDATION_FAILED''
        \<and> addToBatch s h d now
          = Inl (''Cannot add document to batch: Document validation failed: ''
                 @ join (validate (h d)) '', ''))
   \<and> (validate (h d) = [] \<and> \<not> ok (canBeProcessed (h d) now) \<longrightarrow>
        code (canAddToBatch s h d now) = code (canBeProcessed (h d) now)
        \<and> addToBatch s h d now
          = Inl (''Cannot add document to batch: '' @ reason (canBeProcessed (h d) now)))
   \<and> (locallyValid (h d) now \<and> batchSize s \<le> int (length (processingQueue s)) \<longrightarrow>
        code (canAddToBatch s h d now) = ''BATCH_FULL''
        \<and> addToBatch s h d now
          = Inl (''Cannot add document to batch: Batch is full (''
                 @ num_str (batchSize s) @ '' documents)''))
   \<and> (locallyValid (h d) now \<and> int (length (processingQueue s)) < batchSize s
        \<and> doc_id (h d) \<in> (\<lambda>q. doc_id (h q)) ` set (processingQueue s) \<longrightarrow>
        code (canAddToBatch s h d now) = ''ALREADY_IN_QUEUE''
        \<and> addToBatch s h d now
          = Inl ''Cannot add document to batch: Document is already in processing queue'')
   \<and> (locallyValid (h d) now \<and> int (length (processingQueue s)) < batchSize s
        \<and> doc_id (h d) \<notin> (\<lambda>q. doc_id (h q)) ` set (processingQueue s) \<longrightarrow>
        addToBatch s h d now
          = Inr (\<lparr>add_success = True, add_documentId = doc_id (h d),
                  queuePosition = length (processingQueue s) + 1,
                  estimatedWaitTime =
                    js_ceil (js_div (real (length (processingQueue s) + 1) * 5)
                                    (of_int (maxWorkers s)))\<rparr>,
                 s\<lparr>processingQueue := processingQueue s @ [d]\<rparr>))
   \<and> (processingQueue s = [] \<and> batchSize s = int (length ds)
        \<and> distinct (map (\<lambda>p. doc_id (h (fst p))) ds)
        \<and> (\<forall>(d, now) \<in> set ds. locallyValid (h d) now) \<longrightarrow>
        admitAll s h ds = Inr (s\<lparr>processingQueue := map fst ds\<rparr>)
        \<and> (\<forall>d' now'. locallyValid (h d') now' \<longrightarrow>
              addToBatch (s\<lparr>processingQueue := map fst ds\<rparr>) h d' now'
                = Inl (''Cannot add document to batch: Batch is full (''
                       @ num_str (batchSize s) @ '' documents)'')))"
proof (intro conjI impI allI)
  show "(\<exists>msg. addToBatch s h d now = Inl msg) \<longleftrightarrow>
       (\<not> locallyValid (h d) now \<or> batchSize s \<le> int (length (processingQueue s))
        \<or> doc_id (h d) \<in> (\<lambda>q. doc_id (h q)) ` set (processingQueue s))"
    by (rule addToBatch_rejects_iff)
next
  assume a: "validate (h d) \<noteq> []"
  then have c: "canAddToBatch s h d now
   = \<lparr>ok = False, reason = ''Document validation failed: '' @ join (validate (h d)) '', '',
      code = ''VALIDATION_FAILED''\<rparr>" by (rule canAddToBatch_invalid)
  show "code (canAddToBatch s h d now) = ''VALIDATION_FAILED''" by (simp add: c)
  have "\<not> ok (canAddToBatch s h d now)" by (simp add: c)
  from addToBatch_rejected[OF this]
  show "addToBatch s h d now
          = Inl (''Cannot add document to batch: Document validation failed: ''
                 @ join (validate (h d)) '', '')" by (simp add: c)
next
  assume a: "validate (h d) = [] \<and> \<not> ok (canBeProcessed (h d) now)"
  then have c: "canAddToBatch s h d now
   = \<lparr>ok = False, reason = reason (canBeProcessed (h d) now),
      code = code (canBeProcessed (h d) now)\<rparr>" by (simp add: canAddToBatch_unprocessable)
  show "code (canAddToBatch s h d now) = code (canBeProcessed (h d) now)" by (simp add: c)
  have "\<not> ok (canAddToBatch s h d now)" by (simp add: c)
  from addToBatch_rejected[OF this]
  show "addToBatch s h d now
          = Inl (''Cannot add document to batch: '' @ reason (canBeProcessed (h d) now))"
    by (simp add: c)
next
  assume a: "locallyValid (h d) now \<and> batchSize s \<le> int (length (processingQueue s))"
  then have c: "canAddToBatch s h d now
   = \<lparr>ok = False, reason = ''Batch is full ('' @ num_str (batchSize s) @ '' documents)'',
      code = ''BATCH_FULL''\<rparr>" by (simp add: canAddToBatch_full)
  show "code (canAddToBatch s h d now) = ''BATCH_FULL''" by (simp add: c)
  have "\<not> ok (canAddToBatch s h d now)" by (simp add: c)
  from addToBatch_rejected[OF this]
  show "addToBatch s h d now
          = Inl (''Cannot add document to batch: Batch is full (''
                 @ num_str (batchSize s) @ '' documents)'')" by (simp add: c)
next
  assume a: "locallyValid (h d) now \<and> int (length (processingQueue s)) < batchSize s
        \<and> doc_id (h d) \<in> (\<lambda>q. doc_id (h q)) ` set (processingQueue s)"
  then have c: "canAddToBatch s h d now
   = \<lparr>ok = False, reason = ''Document is already in processing queue'',
      code = ''ALREADY_IN_QUEUE''\<rparr>" by (simp add: canAddToBatch_duplicate)
  show "code (canAddToBatch s h d now) = ''ALREADY_IN_QUEUE''" by (simp add: c)
  have "\<not> ok (canAddToBatch s h d now)" by (simp add: c)
  from addToBatch_rejected[OF this]
  show "addToBatch s h d now
          = Inl ''Cannot add document to batch: Document is already in processing queue''"
    by (simp add: c)
next
  assume a: "locallyValid (h d) now \<and> int (length (processingQueue s)) < batchSize s
        \<and> doc_id (h d) \<notin> (\<lambda>q. doc_id (h q)) ` set (processingQueue s)"
  then have "ok (canAddToBatch s h d now)" by (simp add: canAddToBatch_ok_iff)
  then show "addToBatch s h d now
          = Inr (\<lparr>add_success = True, add_documentId = doc_id (h d),
                  queuePosition = length (processingQueue s) + 1,
                  estimatedWaitTime =
                    js_ceil (js_div (real (length (processingQueue s) + 1) * 5)
                                    (of_int (maxWorkers s)))\<rparr>,
                 s\<lparr>processingQueue := processingQueue s @ [d]\<rparr>)"
    by (rule addToBatch_accepted)
next
  assume a: "processingQueue s = [] \<and> batchSize s = int (length ds)
        \<and> distinct (map (\<lambda>p. doc_id (h (fst p))) ds)
        \<and> (\<forall>(d, now) \<in> set ds. locallyValid (h d) now)"
  then show "admitAll s h ds = Inr (s\<lparr>processingQueue := map fst ds\<rparr>)"
    using admitAll_within_capacity[where s=s and h=h and ds=ds] by simp
next
  fix d' now'
  assume a: "processingQueue s = [] \<and> batchSize s = int (length ds)
        \<and> distinct (map (\<lambda>p. doc_id (h (fst p))) ds)
        \<and> (\<forall>(d, now) \<in> set ds. locallyValid (h d) now)"
  assume v: "locallyValid (h d') now'"
  let ?s = "s\<lparr>processingQueue := map fst ds\<rparr>"
  have full: "batchSize ?s \<le> int (length (processingQueue ?s))" using a by simp
  have c: "canAddToBatch ?s h d' now'
   = \<lparr>ok = False, reason = ''Batch is full ('' @ num_str (batchSize ?s) @ '' documents)'',
      code = ''BATCH_FULL''\<rparr>" using v full by (rule canAddToBatch_full)
  have "\<not> ok (canAddToBatch ?s h d' now')" by (simp add: c)
  from addToBatch_rejected[OF this]
  show "addToBatch ?s h d' now'
                = Inl (''Cannot add document to batch: Batch is full (''
                       @ num_str (batchSize s) @ '' documents)'')" by (simp add: c)
qed

text \<open>
  C3 with \<open>batchSize = 2\<close>: two documents are admitted, a third is rejected as the
  batch is full; a duplicate id, an empty id, a first admission with default
  configuration, and a document that is already completed.
\<close>

theorem addToBatch_admission_witness:
  "locallyValid (example_heap 1) 0
   \<and> locallyValid (example_heap 2) 0
   \<and> locallyValid (example_heap 3) 0
   \<and> processingQueue two_slot_service = []
   \<and> batchSize two_slot_service = 2
   \<and> admitAll two_slot_service example_heap [(1, 0), (2, 0)]
      = Inr (two_slot_service\<lparr>processingQueue := [1, 2]\<rparr>)
   \<and> addToBatch (two_slot_service\<lparr>processingQueue := [1, 2]\<rparr>) example_heap 3 0
      = Inl ''Cannot add document to batch: Batch is full (2 documents)''
   \<and> addToBatch (one_queued default_env) example_heap 1 0
      = Inl ''Cannot add document to batch: Document is already in processing queue''
   \<and> validate (example_heap 0) = [''Document ID is required'']
   \<and> addToBatch (constructor default_env) example_heap 0 0
      = Inl ''Cannot add document to batch: Document validation failed: Document ID is required''
   \<and> addToBatch (constructor default_env) example_heap 1 0
      = Inr (\<lparr>add_success = True, add_documentId = ''doc-001'', queuePosition = 1,
              estimatedWaitTime = Num 3\<rparr>, one_queued default_env)
   \<and> validate (example_heap 4) = []
   \<and> \<not> ok (canBeProcessed (example_heap 4) 1040000)
   \<and> code (canAddToBatch (constructor default_env) example_heap 4 1040000)
       = ''ALREADY_COMPLETED''
   \<and> addToBatch (constructor default_env) example_heap 4 1040000
      = Inl ''Cannot add document to batch: Document has already been processed successfully''"
proof -
  let ?ds = "[(1, 0), (2, 0)] :: (ref \<times> int) list"
  have v1: "locallyValid (example_heap 1) 0"
    and v2: "locallyValid (example_heap 2) 0"
    and v3: "locallyValid (example_heap 3) 0"
    by (simp_all add: example_locallyValid)
  have inv: "validate (example_heap 0) = [''Document ID is required'']"
    by (simp add: validate_def example_document_def truthy_size_def validateForProcessing_def
      local_pdf_def exists_def isReadable_def isWithinSizeLimit_def isSupportedType_def
      supportedExtensions_def)
  have pre: "processingQueue two_slot_service = []
        \<and> batchSize two_slot_service = int (length ?ds)
        \<and> distinct (map (\<lambda>p. doc_id (example_heap (fst p))) ?ds)
        \<and> (\<forall>(d, now) \<in> set ?ds. locallyValid (example_heap d) now)"
    using v1 v2 by simp
  note t = addToBatch_admission[where h=example_heap]
  have full: "admitAll two_slot_service example_heap ?ds
        = Inr (two_slot_service\<lparr>processingQueue := map fst ?ds\<rparr>)
      \<and> addToBatch (two_slot_service\<lparr>processingQueue := map fst ?ds\<rparr>) example_heap 3 0
        = Inl (''Cannot add document to batch: Batch is full (''
                       @ num_str (batchSize two_slot_service) @ '' documents)'')"
    using t[where s=two_slot_service and ds="?ds", THEN conjunct2, THEN conjunct2,
            THEN conjunct2, THEN conjunct2, THEN conjunct2, THEN conjunct2,
            rule_format, OF pre] v3
    by blast
  have dup: "addToBatch (one_queued default_env) example_heap 1 0
      = Inl ''Cannot add document to batch: Document is already in processing queue''"
    using t[where s="one_queued default_env" and d=1 and now=0 and ds="[]",
            THEN conjunct2, THEN conjunct2, THEN conjunct2, THEN conjunct2, THEN conjunct1]
      v1 by (simp add: one_queued_def)
  have bad: "addToBatch (constructor default_env) example_heap 0 0
      = Inl ''Cannot add document to batch: Document validation failed: Document ID is required''"
    using t[where s="constructor default_env" and d=0 and now=0 and ds="[]",
            THEN conjunct2, THEN conjunct1] inv by simp
  have good: "addToBatch (constructor default_env) example_heap 1 0
      = Inr (\<lparr>add_success = True, add_documentId = ''doc-001'', queuePosition = 1,
              estimatedWaitTime = Num 3\<rparr>, one_queued default_env)"
    using t[where s="constructor default_env" and d=1 and now=0 and ds="[]",
            THEN conjunct2, THEN conjunct2, THEN conjunct2, THEN conjunct2, THEN conjunct2,
            THEN conjunct1] v1
    by (simp add: one_queued_def js_div_def js_ceil_def)
  have p: "validate (example_heap 4) = [] \<and> \<not> ok (canBeProcessed (example_heap 4) 1040000)"
    by (simp add: completed_document_checks)
  have closed: "code (canAddToBatch (constructor default_env) example_heap 4 1040000)
       = ''ALREADY_COMPLETED''
     \<and> addToBatch (constructor default_env) example_heap 4 1040000
      = Inl ''Cannot add document to batch: Document has already been processed successfully''"
    using t[where s="constructor default_env" and d=4 and now=1040000 and ds="[]",
            THEN conjunct2, THEN conjunct2, THEN conjunct1, rule_format, OF p]
    by (simp add: completed_document_checks)
  from full dup bad good closed p v1 v2 v3 inv show ?thesis by (simp add: num_str_2)
qed

subsection \<open>Status transitions\<close>














lemma failed_service_fields [simp]:
  "batchSize failed_service = 4" "maxWorkers failed_service = 2"
  "maxRetries failed_service = 80" "processingQueue failed_service = []"
  "completedDocuments failed_service = []" "failedDocuments failed_service = [1]"
  by (simp_all add: failed_service_def)

lemma failed_heap_refs [simp]:
  "failed_heap 1 = failed_document" "failed_heap (Suc 0) = failed_document"
  "failed_heap 4 = example_heap 4"
  by (simp_all add: failed_heap_def)






subsection \<open>Summary of a batch\<close>

lemma queueWithinCapacity_constructor: "queueWithinCapacity (constructor env)"
  by (simp add: queueWithinCapacity_def constructor_def)

lemma queueWithinCapacity_addToBatch:
  assumes "addToBatch s h r now = Inr (res, s')"
  shows "queueWithinCapacity s'"
proof -
  have okc: "ok (canAddToBatch s h r now)"
    using assms by (cases "ok (canAddToBatch s h r now)") (simp_all add: addToBatch_rejected)
  then have "int (length (processingQueue s)) < batchSize s"
    by (simp add: canAddToBatch_ok_iff)
  moreover from addToBatch_accepted[OF okc] assms
  have "s' = s\<lparr>processingQueue := processingQueue s @ [r]\<rparr>" by simp
  ultimately show ?thesis by (simp add: queueWithinCapacity_def)
qed

lemma processBatch_summary_relations:
  assumes ne: "processingQueue s \<noteq> []" and cap: "queueWithinCapacity s"
  shows "(1 \<le> maxWorkers s \<longrightarrow>
            (\<exists>res s' h' w'. processBatch s h amb f w = Some (res, s', h', w')))
       \<and> (processBatch s h amb f w = Some (res, s', h', w') \<longrightarrow>
            processed res = completed res + failed res
            \<and> (\<exists>es. errors res = Some es \<and> length es = failed res)
            \<and> int (processed res) = min (int (length (processingQueue s))) (batchSize s)
            \<and> processingQueue s' = drop (processed res) (processingQueue s)
            \<and> queueWithinCapacity s')"
proof (intro conjI impI)
  assume "1 \<le> maxWorkers s"
  from processBatch_summary[OF ne this]
  show "\<exists>res s' h' w'. processBatch s h amb f w = Some (res, s', h', w')" .
next
  assume ret: "processBatch s h amb f w = Some (res, s', h', w')"
  from processBatch_relations[OF ne ret]
  have *: "processed res = completed res + failed res"
    "\<exists>es. errors res = Some es \<and> length es = failed res"
    "processed res = min (length (processingQueue s)) (nat (batchSize s))"
    "processingQueue s' = drop (processed res) (processingQueue s)" by simp_all
  have le: "int (length (processingQueue s)) \<le> batchSize s"
    using ne cap by (simp add: queueWithinCapacity_def)
  then have p: "processed res = length (processingQueue s)" using *(3) by simp
  show "processed res = completed res + failed res" by (rule *(1))
  show "\<exists>es. errors res = Some es \<and> length es = failed res" by (rule *(2))
  show "int (processed res) = min (int (length (processingQueue s))) (batchSize s)"
    using p le by simp
  show "processingQueue s' = drop (processed res) (processingQueue s)" by (rule *(4))
  show "queueWithinCapacity s'" using *(4) p by (simp add: queueWithinCapacity_def)
qed

text \<open>
  Claim C9 at \<^verbatim>\<open>MAX_WORKERS=-1\<close>: the constructor accepts the value, \<^verbatim>\<open>addToBatch\<close>
  admits a document, and \<^verbatim>\<open>processBatch\<close> on that non-empty queue returns no summary,
  because the loop of \<^verbatim>\<open>chunkArray\<close> does not terminate for a chunk size below one.
\<close>

theorem processBatch_hangs_negative_workers:
  "maxWorkers (constructor negative_workers_env) = - 1
   \<and> batchSize (constructor negative_workers_env) = 4
   \<and> map_sum id snd (addToBatch (constructor negative_workers_env) example_heap 1 0)
     = Inr (one_queued negative_workers_env)
   \<and> processingQueue (one_queued negative_workers_env) = [1]
   \<and> chunkArray [1 :: ref] (- 1) = None
   \<and> processBatch (one_queued negative_workers_env) example_heap example_ambient
        always_succeeds 0 = None"
proof -
  have b: "batchSize (constructor negative_workers_env) = 4"
    and m: "maxWorkers (constructor negative_workers_env) = - 1"
    by (simp_all add: constructor_def negative_workers_env_def default_env_def int_or_def)
  have "processBatch (one_queued negative_workers_env) example_heap example_ambient
          always_succeeds 0 = None"
    by (rule processBatch_diverges) (simp_all add: one_queued_def b m)
  moreover have "map_sum id snd
       (addToBatch (constructor negative_workers_env) example_heap 1 0)
     = Inr (one_queued negative_workers_env)"
    using add_first_document[of negative_workers_env 0] b by simp
  moreover have "chunkArray [1 :: ref] (- 1) = None"
    by (rule chunkArray_diverges) simp_all
  ultimately show ?thesis using b m by (simp add: one_queued_def)
qed

text \<open>
  Claim C10. On an empty queue \<^verbatim>\<open>processBatch\<close> returns
  \<^verbatim>\<open>{processed: 0, completed: 0, failed: 0, message}\<close> without an \<^verbatim>\<open>errors\<close> list, and
  the service (queue, completed and failed documents included), every document and the
  world are unchanged.
\<close>

theorem processBatch_empty_queue:
  assumes "processingQueue s = []"
  shows "processBatch s h amb extractionFunction w
     = Some (\<lparr>processed = 0, completed = 0, failed = 0, errors = None,
              message = Some ''No documents in queue to process''\<rparr>, s, h, w)"
  using assms by (rule processBatch_empty)

text \<open>C10 for a freshly constructed service.\<close>

theorem processBatch_empty_queue_witness:
  "processingQueue (constructor default_env) = []
   \<and> processBatch (constructor default_env) example_heap example_ambient always_succeeds 0
     = Some (\<lparr>processed = 0, completed = 0, failed = 0, errors = None,
              message = Some ''No documents in queue to process''\<rparr>,
            constructor default_env, example_heap, 0)"
proof -
  have h: "processingQueue (constructor default_env) = []" by simp
  from processBatch_empty_queue[OF h, of example_heap example_ambient always_succeeds 0] h
  show ?thesis by simp
qed

subsection \<open>Success rate\<close>

lemma getProcessingStats_empty:
  "successRate (getProcessingStats nothing_recorded) = NaN"
  by (simp add: getProcessingStats_def nothing_recorded_def js_div_def js_times_def)

lemma rate_guarded:
  "0 < c + f \<Longrightarrow>
   js_times (js_div (real c) (real (c + f))) 100 = Num (real c / real (c + f) * 100)"
  by (auto simp add: js_div_def js_times_def)

text \<open>
  Claim C4, as the code has it. With \<open>C\<close> results and \<open>F\<close> errors recorded and
  \<open>C + F > 0\<close>, both versions of \<^verbatim>\<open>getProcessingStats\<close> report the percentage
  \<open>C / (C + F) * 100\<close>; with \<open>C + F = 0\<close> the second version reports \<open>0\<close>.
\<close>

theorem successRate_is_percentage:
  "(0 < length (svc_results a) + length (svc_errors a) \<longrightarrow>
      successRate (getProcessingStats a)
        = Num (real (length (svc_results a))
               / real (length (svc_results a) + length (svc_errors a)) * 100)
    \<and> successRate (getProcessingStats2 a)
        = Num (real (length (svc_results a))
               / real (length (svc_results a) + length (svc_errors a)) * 100))
   \<and> (length (svc_results a) + length (svc_errors a) = 0 \<longrightarrow>
        successRate (getProcessingStats2 a) = Num 0)"
  using rate_guarded[of "length (svc_results a)" "length (svc_errors a)"]
  by (simp add: getProcessingStats_def getProcessingStats2_def Let_def)

text \<open>C4 with one result and one error (50 percent), and with nothing recorded.\<close>

theorem successRate_is_percentage_witness:
  "0 < length (svc_results one_each) + length (svc_errors one_each)
   \<and> successRate (getProcessingStats one_each) = Num 50
   \<and> successRate (getProcessingStats2 one_each) = Num 50
   \<and> length (svc_results nothing_recorded) + length (svc_errors nothing_recorded) = 0
   \<and> successRate (getProcessingStats2 nothing_recorded) = Num 0"
  using successRate_is_percentage[of one_each] successRate_is_percentage[of nothing_recorded]
  by (simp add: one_each_def nothing_recorded_def)

text \<open>
  Claim C4 at \<open>C = 1\<close>, \<open>F = 1\<close>: the reported rate is \<open>50\<close>, not
  \<open>C / (C + F) = 1 / 2\<close>.
\<close>

theorem successRate_is_percentage_counterexample:
  "successRate (getProcessingStats one_each) = Num 50
   \<and> successRate (getProcessingStats2 one_each) = Num 50
   \<and> Num 50 \<noteq> Num (1 / (1 + 1))"
  by (simp add: getProcessingStats_def getProcessingStats2_def js_div_def js_times_def Let_def
      one_each_def)


subsection \<open>Backoff\<close>

lemma js_pow2_pos: "1 \<le> n \<Longrightarrow> js_pow2 (n - 1) = 2 ^ nat (n - 1)"
  by (simp add: js_pow2_def)

text \<open>
  Claim C7. For every attempt number \<open>n \<ge> 1\<close> and every jitter \<open>j\<close> in \<open>[0, 1000)\<close>
  milliseconds (that is, \<^verbatim>\<open>Math.random()\<close> returned \<open>j / 1000\<close>), the backoff wait is
  \<open>min (2 ^ (n - 1) * 1000 + j) (cap * 1000)\<close> milliseconds with
  \<open>cap = min maxRetryWaitTime 30\<close> seconds, and so never exceeds the cap.
\<close>

theorem calculateRetryWaitTime_formula:
  assumes "1 \<le> n" and "0 \<le> j" and "j < 1000"
  shows "calculateRetryWaitTime s n (j / 1000)
           = min (2 ^ nat (n - 1) * 1000 + j)
                 (of_int (min (maxRetryWaitTime s) 30) * 1000)
         \<and> calculateRetryWaitTime s n (j / 1000)
           \<le> of_int (min (maxRetryWaitTime s) 30) * 1000"
  using assms by (simp add: calculateRetryWaitTime_def js_pow2_pos)

text \<open>
  An instance of C7: third attempt, jitter 500 ms, default configuration (cap 30 s).
  The wait is 4500 ms.
\<close>

theorem calculateRetryWaitTime_formula_witness:
  "(1::int) \<le> 3 \<and> (0::real) \<le> 500 \<and> (500::real) < 1000
   \<and> calculateRetryWaitTime (constructor default_env) 3 (500 / 1000) = 4500
   \<and> calculateRetryWaitTime (constructor default_env) 3 (500 / 1000) \<le> 30 * 1000"
  using calculateRetryWaitTime_formula [of 3 500 "constructor default_env"]
  by (simp add: constructor_def default_env_def int_or_def)

end
